theory Spec2Isabelle
  imports Main "HOL-Library.Signed_Division"
begin

section \<open>The RTSP client handler of rtsp-simple-server (client.go)\<close>

text \<open>
  A shallow embedding of \<^verbatim>\<open>src/client.go\<close>: the interleaved channel mapping, the
  Transport header parser, the \<^verbatim>\<open>client\<close> struct with its \<^verbatim>\<open>close\<close>, the
  request handler \<^verbatim>\<open>handleRequest\<close> and the body of the loop of \<^verbatim>\<open>run\<close>.

  Conventions of the model.
  \<^item> Go's \<^verbatim>\<open>int\<close> is taken at 64 bits (the file converts the results of
    \<^verbatim>\<open>strconv.ParseInt(_, 10, 64)\<close> to it) and modelled by \<open>int\<close>. Where the operands are
    arguments of a function, the result of \<^verbatim>\<open>+\<close>, \<^verbatim>\<open>-\<close> and \<^verbatim>\<open>*\<close> is wrapped into the 64-bit
    range (\<open>wrap64\<close>): lines 25-37. The other arithmetic of the file is \<open>2 * n + 1\<close> on the
    length \<open>n\<close> of a slice of pointers, which is below \<open>2 ^ 60\<close> and cannot wrap. Division and
    remainder are Go's, which truncate towards zero (\<open>sdiv\<close>, \<open>smod\<close>).
  \<^item> Go strings and byte slices are \<open>string\<close> (lists of bytes).
  \<^item> A \<^verbatim>\<open>*client\<close> is an address \<open>cid\<close>; the structs live in \<open>heap\<close>.
  \<^item> The mutex is not modelled: one call of the handler is one step on the registry.
  \<^item> Logging and the \<^verbatim>\<open>ip\<close> field (written once in \<^verbatim>\<open>run\<close>, read by no code of this
    file) are left out.
\<close>

subsection \<open>Library functions of Go used by the file\<close>

text \<open>\<^verbatim>\<open>strings.Split(s, sep)\<close> for a separator of one byte: the pieces between the
  separators; the empty string gives one empty piece.\<close>

fun strings_Split :: "string \<Rightarrow> char \<Rightarrow> string list" where
  "strings_Split [] sep = [[]]"
| "strings_Split (x # xs) sep =
     (if x = sep then [] # strings_Split xs sep
      else (case strings_Split xs sep of
              [] \<Rightarrow> [[x]]
            | y # ys \<Rightarrow> (x # y) # ys))"

text \<open>\<^verbatim>\<open>strings.Index(s, sep)\<close> for a separator of one byte: the index of its first
  occurrence, or \<open>-1\<close>.\<close>

fun strings_Index :: "string \<Rightarrow> char \<Rightarrow> int" where
  "strings_Index [] sep = - 1"
| "strings_Index (x # xs) sep =
     (if x = sep then 0
      else (let n = strings_Index xs sep in if n < 0 then - 1 else n + 1))"

text \<open>\<^verbatim>\<open>strings.HasPrefix(s, prefix)\<close>.\<close>

definition strings_HasPrefix :: "string \<Rightarrow> string \<Rightarrow> bool" where
  "strings_HasPrefix s pfx = (take (length pfx) s = pfx)"

text \<open>\<^verbatim>\<open>strings.Join(elems, sep)\<close>.\<close>

fun strings_Join :: "string list \<Rightarrow> string \<Rightarrow> string" where
  "strings_Join [] sep = []"
| "strings_Join [x] sep = x"
| "strings_Join (x # y # ys) sep = x @ sep @ strings_Join (y # ys) sep"

text \<open>The verb \<^verbatim>\<open>%d\<close> of \<^verbatim>\<open>fmt.Sprintf\<close>: decimal digits, with a minus sign for a
  negative number.\<close>

definition digit_char :: "nat \<Rightarrow> char" where
  "digit_char d = ''0123456789'' ! (d mod 10)"

fun nat_digits :: "nat \<Rightarrow> string" where
  "nat_digits n =
     (if n < 10 then [digit_char n] else nat_digits (n div 10) @ [digit_char (n mod 10)])"

declare nat_digits.simps [simp del]

definition sprintf_d :: "int \<Rightarrow> string" where
  "sprintf_d i = (if i < 0 then CHR ''-'' # nat_digits (nat (- i)) else nat_digits (nat i))"

text \<open>\<^verbatim>\<open>strconv.ParseInt(s, 10, 64)\<close>: an optional sign, then one or more decimal digits;
  an error (\<open>None\<close>) on anything else and on a value outside the 64-bit range.\<close>

definition digit_of :: "char \<Rightarrow> nat option" where
  "digit_of ch =
     map_of [(CHR ''0'', 0), (CHR ''1'', 1), (CHR ''2'', 2), (CHR ''3'', 3), (CHR ''4'', 4),
             (CHR ''5'', 5), (CHR ''6'', 6), (CHR ''7'', 7), (CHR ''8'', 8), (CHR ''9'', 9)] ch"

fun parse_digits :: "nat \<Rightarrow> string \<Rightarrow> nat option" where
  "parse_digits acc [] = Some acc"
| "parse_digits acc (ch # cs) =
     (case digit_of ch of
        None \<Rightarrow> None
      | Some d \<Rightarrow> parse_digits (acc * 10 + d) cs)"

definition strconv_ParseInt :: "string \<Rightarrow> int option" where
  "strconv_ParseInt s =
     (let neg = (s \<noteq> [] \<and> hd s = CHR ''-'');
          ds = (if s \<noteq> [] \<and> (hd s = CHR ''+'' \<or> hd s = CHR ''-'') then tl s else s)
      in if ds = [] then None
         else (case parse_digits 0 ds of
                 None \<Rightarrow> None
               | Some n \<Rightarrow>
                   (let v = (if neg then - int n else int n)
                    in if v < - (2 ^ 63) \<or> 2 ^ 63 - 1 < v then None else Some v)))"

text \<open>The apostrophe of the error messages.\<close>

definition apos :: string where
  "apos = [CHR 0x27]"

subsection \<open>Interleaved channels (lines 25-37)\<close>

text \<open>Modelled from the spec: the type \<^verbatim>\<open>trackFlow\<close> and its two constants are declared
  outside \<^verbatim>\<open>src/\<close>; the file only compares a flow with \<^verbatim>\<open>_TRACK_FLOW_RTP\<close>.\<close>

datatype trackFlow = TRACK_FLOW_RTP | TRACK_FLOW_RTCP

text \<open>The value that an arithmetic result has in a 64-bit \<^verbatim>\<open>int\<close>: two's complement
  wrap-around into \<open>- 2 ^ 63 \<le> _ < 2 ^ 63\<close>.\<close>

definition wrap64 :: "int \<Rightarrow> int" where
  "wrap64 x = (x + 2 ^ 63) mod 2 ^ 64 - 2 ^ 63"

text \<open>The arguments are values of \<^verbatim>\<open>int\<close>, that is, in the 64-bit range.\<close>

definition interleavedChannelToTrack :: "int \<Rightarrow> int \<times> trackFlow" where
  "interleavedChannelToTrack channel =
     (if channel smod 2 = 0 then (channel sdiv 2, TRACK_FLOW_RTP)
      else (wrap64 (channel - 1) sdiv 2, TRACK_FLOW_RTCP))"

definition trackToInterleavedChannel :: "int \<Rightarrow> trackFlow \<Rightarrow> int" where
  "trackToInterleavedChannel tid flow =
     (if flow = TRACK_FLOW_RTP then wrap64 (tid * 2) else wrap64 (wrap64 (tid * 2) + 1))"

subsection \<open>The Transport header (lines 39-81)\<close>

text \<open>
  \<^verbatim>\<open>transportHeader\<close> is a Go map used as a set of tokens. The model keeps the tokens
  without repetition. Go leaves the order in which \<^verbatim>\<open>range\<close> enumerates a map
  unspecified, and \<^verbatim>\<open>getKeyValue\<close> returns at the first token with the prefix it meets:
  the enumeration is the parameter \<open>order\<close>, chosen by the runtime.
\<close>

type_synonym transportHeader = "string list"

definition newTransportHeader :: "string \<Rightarrow> transportHeader" where
  "newTransportHeader inp = remdups (strings_Split inp CHR '';'')"

definition getKeyValue :: "(string list \<Rightarrow> string list) \<Rightarrow> transportHeader \<Rightarrow> string \<Rightarrow> string" where
  "getKeyValue order th key =
     (let pfx = key @ ''=''
      in (case List.find (\<lambda>t. strings_HasPrefix t pfx) (order th) of
            Some t \<Rightarrow> drop (length pfx) t
          | None \<Rightarrow> []))"

definition getClientPorts :: "(string list \<Rightarrow> string list) \<Rightarrow> transportHeader \<Rightarrow> int \<times> int" where
  "getClientPorts order th =
     (let v = getKeyValue order th ''client_port''
      in if v = [] then (0, 0)
         else (let ports = strings_Split v CHR ''-''
               in if length ports \<noteq> 2 then (0, 0)
                  else (case strconv_ParseInt (ports ! 0) of
                          None \<Rightarrow> (0, 0)
                        | Some port1 \<Rightarrow>
                            (case strconv_ParseInt (ports ! 1) of
                               None \<Rightarrow> (0, 0)
                             | Some port2 \<Rightarrow> (port1, port2)))))"

subsection \<open>The data model (lines 83-93)\<close>

text \<open>Modelled from the spec: the types \<^verbatim>\<open>streamProtocol\<close>, \<^verbatim>\<open>track\<close> and \<^verbatim>\<open>program\<close>, the
  package \<^verbatim>\<open>rtsp\<close> (\<^verbatim>\<open>Request\<close>, \<^verbatim>\<open>Response\<close>, \<^verbatim>\<open>Conn\<close>) and \<^verbatim>\<open>sdp.Message\<close> are declared
  outside \<^verbatim>\<open>src/\<close>. The records below have the fields that \<^verbatim>\<open>client.go\<close> reads and
  writes, with the types it uses them at. Of a parsed SDP the file reads only the
  length of \<^verbatim>\<open>Medias\<close>; of the connection \<^verbatim>\<open>rconn\<close> the model keeps whether \<^verbatim>\<open>Close\<close> was
  called. The server's UDP ports are the fields \<open>p_rtpPort\<close> and \<open>p_rtcpPort\<close>
  (\<^verbatim>\<open>rtpPort\<close> and \<^verbatim>\<open>rtcpPort\<close> of \<^verbatim>\<open>program\<close>, renamed apart from the fields of a
  track).\<close>

datatype streamProtocol = STREAM_PROTOCOL_UDP | STREAM_PROTOCOL_TCP

record track =
  rtpPort :: int
  rtcpPort :: int

record sdp_Message =
  Medias :: "string list"

type_synonym cid = nat

record client =
  rconn_closed :: bool
  state :: string
  path :: string
  streamSdpText :: string
  streamSdpParsed :: "sdp_Message option"
  streamProtocol :: streamProtocol
  streamTracks :: "track list"

record program =
  clients :: "cid list"
  publishers :: "string \<rightharpoonup> cid"
  publishKey :: string
  p_rtpPort :: int
  p_rtcpPort :: int
  heap :: "cid \<Rightarrow> client"

record request =
  Method :: string
  Url :: string
  Headers :: "string \<rightharpoonup> string"
  Content :: string

record response =
  StatusCode :: nat
  Status :: string
  res_Headers :: "string \<rightharpoonup> string"
  res_Content :: string

text \<open>
  What the handler takes from outside the repository: \<^verbatim>\<open>url.Parse\<close> (of its result the
  file reads \<^verbatim>\<open>Path\<close> and \<^verbatim>\<open>RawQuery\<close>), \<^verbatim>\<open>url.ParseQuery\<close>, the two decoding steps of
  \<^verbatim>\<open>gortc.io/sdp\<close> (taken together: an error message or the parsed message), and the
  order in which the runtime enumerates a map. They are parameters of the model.
\<close>

record url_URL =
  Path :: string
  RawQuery :: string

record externals =
  url_Parse :: "string \<Rightarrow> url_URL option"
  url_ParseQuery :: "string \<Rightarrow> (string \<rightharpoonup> string list) option"
  sdp_Decode :: "string \<Rightarrow> string + sdp_Message"
  map_range :: "string list \<Rightarrow> string list"

text \<open>The four sentinels of lines 18-23, and \<^verbatim>\<open>fmt.Errorf\<close> with its message.\<close>

datatype error = errTeardown | errPlay | errRecord | errWrongKey | Errorf string

text \<open>A call of the handler returns the pair \<^verbatim>\<open>(*rtsp.Response, error)\<close>, or panics on a
  nil \<^verbatim>\<open>streamSdpParsed\<close>.\<close>

datatype outcome = Return "response option" "error option" | Panic

subsection \<open>newClient and close (lines 95-132)\<close>

text \<open>\<open>c\<close> is the address of the new struct. The zero value of \<^verbatim>\<open>streamProtocol\<close> is
  declared outside \<^verbatim>\<open>src/\<close>; no code reads the field before a SETUP has written it.\<close>

definition newClient :: "program \<Rightarrow> cid \<Rightarrow> program" where
  "newClient p c =
     p\<lparr>heap := (heap p)(c := \<lparr>rconn_closed = False, state = ''STARTING'', path = [],
                               streamSdpText = [], streamSdpParsed = None,
                               streamProtocol = STREAM_PROTOCOL_UDP, streamTracks = []\<rparr>),
       clients := List.insert c (clients p)\<rparr>"

text \<open>Lines 115-116: the client leaves the set and its socket is closed.\<close>

definition delete_and_Close :: "program \<Rightarrow> cid \<Rightarrow> program" where
  "delete_and_Close p c =
     p\<lparr>clients := removeAll c (clients p),
       heap := (heap p)(c := (heap p c)\<lparr>rconn_closed := True\<rparr>)\<rparr>"

text \<open>
  \<^verbatim>\<open>close\<close> (lines 109-132) calls itself on the other clients of the path. The recursion
  is bounded by fuel, \<open>None\<close> when it runs out. The loop of lines 124-128 ranges over the
  map \<^verbatim>\<open>clients\<close> while the calls delete from it; Go does not produce an entry deleted
  before it is reached, hence the membership test in the loop. Go leaves the order of the
  loop unspecified; here it is the order of the list \<open>clients\<close>, which is arbitrary.
\<close>

fun close_fuel :: "nat \<Rightarrow> program \<Rightarrow> cid \<Rightarrow> program option" where
  "close_fuel 0 p c = None"
| "close_fuel (Suc n) p c =
     (if c \<notin> set (clients p) then Some p
      else
        (let p1 = delete_and_Close p c
         in if path (heap p1 c) \<noteq> [] \<and> publishers p1 (path (heap p1 c)) = Some c
            then
              (let p2 = p1\<lparr>publishers := (publishers p1)(path (heap p1 c) := None)\<rparr>
               in fold (\<lambda>oc acc.
                          (case acc of
                             None \<Rightarrow> None
                           | Some r \<Rightarrow>
                               if oc \<in> set (clients r) \<and> path (heap r oc) = path (heap r c)
                               then close_fuel n r oc
                               else Some r))
                       (clients p2) (Some p2))
            else Some p1))"

declare close_fuel.simps [simp del]

text \<open>The recursion is at most as deep as there are clients.\<close>

definition close :: "program \<Rightarrow> cid \<Rightarrow> program option" where
  "close p c = close_fuel (Suc (length (clients p))) p c"

text \<open>
  The effect of \<^verbatim>\<open>close\<close> in closed form, which \<open>close_eq\<close> below proves equal to the
  recursion: \<open>close_others r k xs\<close> is \<open>r\<close> after the clients among \<open>xs\<close> bound to the
  path \<open>k\<close> have left the set and had their sockets closed.
\<close>

definition close_others :: "program \<Rightarrow> string \<Rightarrow> cid list \<Rightarrow> program" where
  "close_others r k xs =
     r\<lparr>clients := filter (\<lambda>oc. \<not> (oc \<in> set xs \<and> path (heap r oc) = k)) (clients r),
       heap := (\<lambda>oc. if oc \<in> set xs \<and> oc \<in> set (clients r) \<and> path (heap r oc) = k
                      then (heap r oc)\<lparr>rconn_closed := True\<rparr>
                      else heap r oc)\<rparr>"

definition close_result :: "program \<Rightarrow> cid \<Rightarrow> program" where
  "close_result p c =
     (if c \<notin> set (clients p) then p
      else if path (heap p c) \<noteq> [] \<and> publishers p (path (heap p c)) = Some c
      then close_others
             ((delete_and_Close p c)\<lparr>publishers := (publishers p)(path (heap p c) := None)\<rparr>)
             (path (heap p c)) (removeAll c (clients p))
      else delete_and_Close p c)"

subsection \<open>handleRequest (lines 298-802)\<close>

text \<open>\<^verbatim>\<open>return nil, fmt.Errorf(...)\<close>.\<close>

abbreviation fail :: "string \<Rightarrow> outcome" where
  "fail msg \<equiv> Return None (Some (Errorf msg))"

abbreviation in_state :: "program \<Rightarrow> cid \<Rightarrow> string" where
  "in_state p c \<equiv> ''client is in state '' @ apos @ state (heap p c) @ apos"

text \<open>The closure of lines 309-323, applied to \<^verbatim>\<open>ur.Path\<close>.\<close>

definition requestPath :: "string \<Rightarrow> string" where
  "requestPath urPath =
     (let ret = urPath;
          ret = (if length ret > 1 then drop 1 ret else ret);
          n = strings_Index ret CHR ''/'';
          ret = (if n \<ge> 0 then take (nat n) ret else ret)
      in ret)"

text \<open>Lines 326-345.\<close>

definition handle_OPTIONS :: "string \<Rightarrow> outcome" where
  "handle_OPTIONS cseq =
     Return (Some \<lparr>StatusCode = 200, Status = ''OK'',
                   res_Headers = [''CSeq'' \<mapsto> cseq,
                                  ''Public'' \<mapsto> strings_Join [''DESCRIBE'', ''ANNOUNCE'', ''SETUP'',
                                     ''PLAY'', ''PAUSE'', ''RECORD'', ''TEARDOWN''] '', ''],
                   res_Content = []\<rparr>) None"

text \<open>Lines 347-376.\<close>

definition handle_DESCRIBE :: "program \<Rightarrow> cid \<Rightarrow> request \<Rightarrow> string \<Rightarrow> string \<Rightarrow> outcome" where
  "handle_DESCRIBE p c req cseq rpath =
     (if state (heap p c) \<noteq> ''STARTING'' then fail (in_state p c)
      else (case publishers p rpath of
              None \<Rightarrow> fail (''no one is streaming on path '' @ apos @ rpath @ apos)
            | Some pub \<Rightarrow>
                Return (Some \<lparr>StatusCode = 200, Status = ''OK'',
                              res_Headers = [''CSeq'' \<mapsto> cseq, ''Content-Base'' \<mapsto> Url req,
                                             ''Content-Type'' \<mapsto> ''application/sdp''],
                              res_Content = streamSdpText (heap p pub)\<rparr>) None))"

text \<open>Lines 411-425: the publish key, when one is configured.\<close>

definition check_publishKey :: "externals \<Rightarrow> program \<Rightarrow> url_URL \<Rightarrow> error option" where
  "check_publishKey lib p ur =
     (if publishKey p \<noteq> [] then
        (case url_ParseQuery lib (RawQuery ur) of
           None \<Rightarrow> Some (Errorf ''unable to parse query'')
         | Some qv \<Rightarrow>
             (case qv ''key'' of
                None \<Rightarrow> Some (Errorf ''key missing'')
              | Some key \<Rightarrow>
                  if length key = 0 then Some (Errorf ''key missing'')
                  else if key ! 0 \<noteq> publishKey p then Some errWrongKey
                  else None))
      else None)"

text \<open>Lines 378-453.\<close>

definition handle_ANNOUNCE ::
  "externals \<Rightarrow> program \<Rightarrow> cid \<Rightarrow> request \<Rightarrow> string \<Rightarrow> url_URL \<Rightarrow> string \<Rightarrow> outcome \<times> program" where
  "handle_ANNOUNCE lib p c req cseq ur rpath =
     (if state (heap p c) \<noteq> ''STARTING'' then (fail (in_state p c), p)
      else (case Headers req ''Content-Type'' of
              None \<Rightarrow> (fail ''Content-Type header missing'', p)
            | Some ct \<Rightarrow>
                if ct \<noteq> ''application/sdp''
                then (fail (''unsupported Content-Type '' @ apos @ ct @ apos), p)
                else (case sdp_Decode lib (Content req) of
                        Inl e \<Rightarrow> (fail (''invalid SDP: '' @ e), p)
                      | Inr sdpParsed \<Rightarrow>
                          (case check_publishKey lib p ur of
                             Some e \<Rightarrow> (Return None (Some e), p)
                           | None \<Rightarrow>
                               (case publishers p rpath of
                                  Some other \<Rightarrow>
                                    (fail (''another client is already publishing on path ''
                                             @ apos @ rpath @ apos), p)
                                | None \<Rightarrow>
                                    (Return (Some \<lparr>StatusCode = 200, Status = ''OK'',
                                                   res_Headers = [''CSeq'' \<mapsto> cseq],
                                                   res_Content = []\<rparr>) None,
                                     p\<lparr>publishers := (publishers p)(rpath \<mapsto> c),
                                       heap := (heap p)(c := (heap p c)
                                          \<lparr>path := rpath, streamSdpText := Content req,
                                           streamSdpParsed := Some sdpParsed,
                                           state := ''ANNOUNCE''\<rparr>)\<rparr>))))))"

text \<open>The responses of SETUP over UDP (lines 512-526, 627-641) and TCP (lines 567-579,
  681-693).\<close>

definition setup_response_udp :: "program \<Rightarrow> string \<Rightarrow> int \<Rightarrow> int \<Rightarrow> response" where
  "setup_response_udp p cseq rtp rtcp =
     \<lparr>StatusCode = 200, Status = ''OK'',
      res_Headers = [''CSeq'' \<mapsto> cseq,
                     ''Transport'' \<mapsto> strings_Join [''RTP/AVP'', ''unicast'',
                         ''client_port='' @ sprintf_d rtp @ ''-'' @ sprintf_d rtcp,
                         ''server_port='' @ sprintf_d (p_rtpPort p) @ ''-'' @ sprintf_d (p_rtcpPort p),
                         ''ssrc=1234ABCD''] '';'',
                     ''Session'' \<mapsto> ''12345678''],
      res_Content = []\<rparr>"

definition setup_response_tcp :: "string \<Rightarrow> string \<Rightarrow> response" where
  "setup_response_tcp cseq interleaved =
     \<lparr>StatusCode = 200, Status = ''OK'',
      res_Headers = [''CSeq'' \<mapsto> cseq,
                     ''Transport'' \<mapsto> strings_Join [''RTP/AVP/TCP'', ''unicast'',
                         ''interleaved='' @ interleaved] '';'',
                     ''Session'' \<mapsto> ''12345678''],
      res_Content = []\<rparr>"

text \<open>Lines 470-526: play via UDP.\<close>

definition setup_play_udp ::
  "externals \<Rightarrow> program \<Rightarrow> cid \<Rightarrow> string \<Rightarrow> string \<Rightarrow> string \<Rightarrow> transportHeader \<Rightarrow> outcome \<times> program" where
  "setup_play_udp lib p c cseq rpath transportstr th =
     (let (rtp, rtcp) = getClientPorts (map_range lib) th
      in if rtp = 0 \<or> rtcp = 0
         then (fail (''transport header does not have valid client ports ('' @ transportstr @ '')''), p)
         else if path (heap p c) \<noteq> [] \<and> rpath \<noteq> path (heap p c)
         then (fail ''path has changed'', p)
         else (case publishers p rpath of
                 None \<Rightarrow> (fail (''no one is streaming on path '' @ apos @ rpath @ apos), p)
               | Some pub \<Rightarrow>
                   if length (streamTracks (heap p c)) > 0
                      \<and> streamProtocol (heap p c) \<noteq> STREAM_PROTOCOL_UDP
                   then (fail ''client want to send tracks with different protocols'', p)
                   else (case streamSdpParsed (heap p pub) of
                           None \<Rightarrow> (Panic, p)
                         | Some m \<Rightarrow>
                             if length (streamTracks (heap p c)) \<ge> length (Medias m)
                             then (fail ''all the tracks have already been setup'', p)
                             else (Return (Some (setup_response_udp p cseq rtp rtcp)) None,
                                   p\<lparr>heap := (heap p)(c := (heap p c)
                                      \<lparr>path := rpath,
                                       streamProtocol := STREAM_PROTOCOL_UDP,
                                       streamTracks := streamTracks (heap p c)
                                          @ [\<lparr>rtpPort = rtp, rtcpPort = rtcp\<rparr>],
                                       state := ''PRE_PLAY''\<rparr>)\<rparr>))))"

text \<open>Lines 529-579: play via TCP. The response names the channels of the track just
  appended.\<close>

definition setup_play_tcp ::
  "program \<Rightarrow> cid \<Rightarrow> string \<Rightarrow> string \<Rightarrow> outcome \<times> program" where
  "setup_play_tcp p c cseq rpath =
     (if path (heap p c) \<noteq> [] \<and> rpath \<noteq> path (heap p c)
      then (fail ''path has changed'', p)
      else (case publishers p rpath of
              None \<Rightarrow> (fail (''no one is streaming on path '' @ apos @ rpath @ apos), p)
            | Some pub \<Rightarrow>
                if length (streamTracks (heap p c)) > 0
                   \<and> streamProtocol (heap p c) \<noteq> STREAM_PROTOCOL_TCP
                then (fail ''client want to send tracks with different protocols'', p)
                else (case streamSdpParsed (heap p pub) of
                        None \<Rightarrow> (Panic, p)
                      | Some m \<Rightarrow>
                          if length (streamTracks (heap p c)) \<ge> length (Medias m)
                          then (fail ''all the tracks have already been setup'', p)
                          else
                            (let tracks = streamTracks (heap p c) @ [\<lparr>rtpPort = 0, rtcpPort = 0\<rparr>];
                                 interleaved =
                                   sprintf_d ((int (length tracks) - 1) * 2) @ ''-''
                                   @ sprintf_d (((int (length tracks) - 1) * 2) + 1)
                             in (Return (Some (setup_response_tcp cseq interleaved)) None,
                                 p\<lparr>heap := (heap p)(c := (heap p c)
                                    \<lparr>path := rpath,
                                     streamProtocol := STREAM_PROTOCOL_TCP,
                                     streamTracks := tracks,
                                     state := ''PRE_PLAY''\<rparr>)\<rparr>)))))"

text \<open>Lines 595-641: record via UDP.\<close>

definition setup_record_udp ::
  "externals \<Rightarrow> program \<Rightarrow> cid \<Rightarrow> string \<Rightarrow> string \<Rightarrow> transportHeader \<Rightarrow> outcome \<times> program" where
  "setup_record_udp lib p c cseq transportstr th =
     (let (rtp, rtcp) = getClientPorts (map_range lib) th
      in if rtp = 0 \<or> rtcp = 0
         then (fail (''transport header does not have valid client ports ('' @ transportstr @ '')''), p)
         else if length (streamTracks (heap p c)) > 0
                 \<and> streamProtocol (heap p c) \<noteq> STREAM_PROTOCOL_UDP
         then (fail ''client want to send tracks with different protocols'', p)
         else (case streamSdpParsed (heap p c) of
                 None \<Rightarrow> (Panic, p)
               | Some m \<Rightarrow>
                   if length (streamTracks (heap p c)) \<ge> length (Medias m)
                   then (fail ''all the tracks have already been setup'', p)
                   else (Return (Some (setup_response_udp p cseq rtp rtcp)) None,
                         p\<lparr>heap := (heap p)(c := (heap p c)
                            \<lparr>streamProtocol := STREAM_PROTOCOL_UDP,
                             streamTracks := streamTracks (heap p c)
                                @ [\<lparr>rtpPort = rtp, rtcpPort = rtcp\<rparr>],
                             state := ''PRE_RECORD''\<rparr>)\<rparr>)))"

text \<open>Line 663: the value of \<^verbatim>\<open>interleaved=\<close> expected for the next track, \<open>n\<close> tracks
  being set up already.\<close>

definition expInterleaved :: "nat \<Rightarrow> string" where
  "expInterleaved n = sprintf_d (0 + int n * 2) @ ''-'' @ sprintf_d (1 + int n * 2)"

text \<open>Lines 644-693: record via TCP.\<close>

definition setup_record_tcp ::
  "externals \<Rightarrow> program \<Rightarrow> cid \<Rightarrow> string \<Rightarrow> transportHeader \<Rightarrow> outcome \<times> program" where
  "setup_record_tcp lib p c cseq th =
     (if length (streamTracks (heap p c)) > 0
         \<and> streamProtocol (heap p c) \<noteq> STREAM_PROTOCOL_TCP
      then (fail ''client want to send tracks with different protocols'', p)
      else (case streamSdpParsed (heap p c) of
              None \<Rightarrow> (Panic, p)
            | Some m \<Rightarrow>
                if length (streamTracks (heap p c)) \<ge> length (Medias m)
                then (fail ''all the tracks have already been setup'', p)
                else
                  (let interleaved = getKeyValue (map_range lib) th ''interleaved''
                   in if interleaved = []
                      then (fail ''transport header does not contain interleaved field'', p)
                      else if interleaved \<noteq> expInterleaved (length (streamTracks (heap p c)))
                      then (fail (''wrong interleaved value, expected '' @ apos
                                    @ expInterleaved (length (streamTracks (heap p c))) @ apos
                                    @ '', got '' @ apos @ interleaved @ apos), p)
                      else (Return (Some (setup_response_tcp cseq interleaved)) None,
                            p\<lparr>heap := (heap p)(c := (heap p c)
                               \<lparr>streamProtocol := STREAM_PROTOCOL_TCP,
                                streamTracks := streamTracks (heap p c)
                                   @ [\<lparr>rtpPort = 0, rtcpPort = 0\<rparr>],
                                state := ''PRE_RECORD''\<rparr>)\<rparr>))))"

text \<open>Lines 455-701.\<close>

definition no_valid_protocol :: "string \<Rightarrow> string" where
  "no_valid_protocol transportstr =
     ''transport header does not contain a valid protocol (RTP/AVP or RTP/AVP/TCP) (''
       @ transportstr @ '')''"

definition handle_SETUP ::
  "externals \<Rightarrow> program \<Rightarrow> cid \<Rightarrow> request \<Rightarrow> string \<Rightarrow> string \<Rightarrow> outcome \<times> program" where
  "handle_SETUP lib p c req cseq rpath =
     (case Headers req ''Transport'' of
        None \<Rightarrow> (fail ''transport header missing'', p)
      | Some transportstr \<Rightarrow>
          (let th = newTransportHeader transportstr
           in if ''unicast'' \<notin> set th
              then (fail ''transport header does not contain unicast'', p)
              else if state (heap p c) = ''STARTING'' \<or> state (heap p c) = ''PRE_PLAY''
              then
                (if ''RTP/AVP'' \<in> set th
                 then setup_play_udp lib p c cseq rpath transportstr th
                 else if ''RTP/AVP/TCP'' \<in> set th
                 then setup_play_tcp p c cseq rpath
                 else (fail (no_valid_protocol transportstr), p))
              else if state (heap p c) = ''ANNOUNCE'' \<or> state (heap p c) = ''PRE_RECORD''
              then
                (if ''mode=record'' \<notin> set th
                 then (fail ''transport header does not contain mode=record'', p)
                 else if rpath \<noteq> path (heap p c)
                 then (fail ''path has changed'', p)
                 else if ''RTP/AVP/UDP'' \<in> set th
                 then setup_record_udp lib p c cseq transportstr th
                 else if ''RTP/AVP/TCP'' \<in> set th
                 then setup_record_tcp lib p c cseq th
                 else (fail (no_valid_protocol transportstr), p))
              else (fail (in_state p c), p)))"

text \<open>The response of PLAY, PAUSE and RECORD.\<close>

definition session_response :: "string \<Rightarrow> response" where
  "session_response cseq =
     \<lparr>StatusCode = 200, Status = ''OK'',
      res_Headers = [''CSeq'' \<mapsto> cseq, ''Session'' \<mapsto> ''12345678''],
      res_Content = []\<rparr>"

text \<open>Lines 703-738.\<close>

definition handle_PLAY :: "program \<Rightarrow> cid \<Rightarrow> string \<Rightarrow> string \<Rightarrow> outcome" where
  "handle_PLAY p c cseq rpath =
     (if state (heap p c) \<noteq> ''PRE_PLAY'' then fail (in_state p c)
      else if rpath \<noteq> path (heap p c) then fail ''path has changed''
      else (case publishers p (path (heap p c)) of
              None \<Rightarrow> fail (''no one is streaming on path '' @ apos @ path (heap p c) @ apos)
            | Some pub \<Rightarrow>
                (case streamSdpParsed (heap p pub) of
                   None \<Rightarrow> Panic
                 | Some m \<Rightarrow>
                     if length (streamTracks (heap p c)) \<noteq> length (Medias m)
                     then fail ''not all tracks have been setup''
                     else Return (Some (session_response cseq)) (Some errPlay))))"

text \<open>Lines 740-762.\<close>

definition handle_PAUSE :: "program \<Rightarrow> cid \<Rightarrow> string \<Rightarrow> string \<Rightarrow> outcome \<times> program" where
  "handle_PAUSE p c cseq rpath =
     (if state (heap p c) \<noteq> ''PLAY'' then (fail (in_state p c), p)
      else if rpath \<noteq> path (heap p c) then (fail ''path has changed'', p)
      else (Return (Some (session_response cseq)) None,
            p\<lparr>heap := (heap p)(c := (heap p c)\<lparr>state := ''PRE_PLAY''\<rparr>)\<rparr>))"

text \<open>Lines 764-794.\<close>

definition handle_RECORD :: "program \<Rightarrow> cid \<Rightarrow> string \<Rightarrow> string \<Rightarrow> outcome" where
  "handle_RECORD p c cseq rpath =
     (if state (heap p c) \<noteq> ''PRE_RECORD'' then fail (in_state p c)
      else if rpath \<noteq> path (heap p c) then fail ''path has changed''
      else (case streamSdpParsed (heap p c) of
              None \<Rightarrow> Panic
            | Some m \<Rightarrow>
                if length (streamTracks (heap p c)) \<noteq> length (Medias m)
                then fail ''not all tracks have been setup''
                else Return (Some (session_response cseq)) (Some errRecord)))"

text \<open>The whole handler: the two checks of lines 299-307, the path, the switch on the
  method.\<close>

definition handleRequest :: "externals \<Rightarrow> program \<Rightarrow> cid \<Rightarrow> request \<Rightarrow> outcome \<times> program" where
  "handleRequest lib p c req =
     (case Headers req ''CSeq'' of
        None \<Rightarrow> (fail ''cseq missing'', p)
      | Some cseq \<Rightarrow>
          (case url_Parse lib (Url req) of
             None \<Rightarrow> (fail (''unable to parse path '' @ apos @ Url req @ apos), p)
           | Some ur \<Rightarrow>
               (let rpath = requestPath (Path ur)
                in if Method req = ''OPTIONS'' then (handle_OPTIONS cseq, p)
                   else if Method req = ''DESCRIBE'' then (handle_DESCRIBE p c req cseq rpath, p)
                   else if Method req = ''ANNOUNCE'' then handle_ANNOUNCE lib p c req cseq ur rpath
                   else if Method req = ''SETUP'' then handle_SETUP lib p c req cseq rpath
                   else if Method req = ''PLAY'' then (handle_PLAY p c cseq rpath, p)
                   else if Method req = ''PAUSE'' then handle_PAUSE p c cseq rpath
                   else if Method req = ''RECORD'' then (handle_RECORD p c cseq rpath, p)
                   else if Method req = ''TEARDOWN'' then (Return None (Some errTeardown), p)
                   else (fail (''unhandled method '' @ apos @ Method req @ apos), p))))"

subsection \<open>The loop of run (lines 139-296)\<close>

text \<open>
  One turn of the loop, for a request that \<^verbatim>\<open>ReadRequest\<close> has delivered. It yields what
  the turn does in order (the responses handed to \<^verbatim>\<open>WriteResponse\<close>, the assignments to
  \<^verbatim>\<open>c.state\<close>), how \<^verbatim>\<open>run\<close> goes on, and the registry. \<open>write_ok\<close> says whether the
  \<^verbatim>\<open>WriteResponse\<close> of a normal, PLAY or RECORD response succeeds. After PLAY or RECORD
  over TCP the function stays in a loop reading the socket (lines 202-213, 236-260)
  until a read fails, and then returns. \<^verbatim>\<open>WriteResponse\<close> of a nil response does not
  return.
\<close>

datatype event = WriteResponse response | SetState string

datatype continuation = NextRequest | DiscardLoop | InterleavedLoop | Exit | Crash

text \<open>Lines 263-273 and 276-293.\<close>

definition unauthorized :: "request \<Rightarrow> response" where
  "unauthorized req =
     \<lparr>StatusCode = 401, Status = ''Unauthorized'',
      res_Headers = [''CSeq'' \<mapsto> (case Headers req ''CSeq'' of None \<Rightarrow> [] | Some v \<Rightarrow> v)],
      res_Content = []\<rparr>"

definition bad_request :: "request \<Rightarrow> response" where
  "bad_request req =
     (case Headers req ''CSeq'' of
        Some cseq \<Rightarrow> \<lparr>StatusCode = 400, Status = ''Bad Request'',
                      res_Headers = [''CSeq'' \<mapsto> cseq], res_Content = []\<rparr>
      | None \<Rightarrow> \<lparr>StatusCode = 400, Status = ''Bad Request'',
                  res_Headers = Map.empty, res_Content = []\<rparr>)"

definition set_state :: "program \<Rightarrow> cid \<Rightarrow> string \<Rightarrow> program" where
  "set_state p c st = p\<lparr>heap := (heap p)(c := (heap p c)\<lparr>state := st\<rparr>)\<rparr>"

definition run_iteration ::
  "externals \<Rightarrow> bool \<Rightarrow> program \<Rightarrow> cid \<Rightarrow> request \<Rightarrow> event list \<times> continuation \<times> program" where
  "run_iteration lib write_ok p c req =
     (case handleRequest lib p c req of
        (Panic, p1) \<Rightarrow> ([], Crash, p1)
      | (Return res err, p1) \<Rightarrow>
          (case err of
             None \<Rightarrow>
               (case res of
                  None \<Rightarrow> ([], Crash, p1)
                | Some r \<Rightarrow> ([WriteResponse r], if write_ok then NextRequest else Exit, p1))
           | Some errTeardown \<Rightarrow> ([], Exit, p1)
           | Some errPlay \<Rightarrow>
               (case res of
                  None \<Rightarrow> ([], Crash, p1)
                | Some r \<Rightarrow>
                    if \<not> write_ok then ([WriteResponse r], Exit, p1)
                    else ([WriteResponse r, SetState ''PLAY''],
                          if streamProtocol (heap p1 c) = STREAM_PROTOCOL_TCP
                          then DiscardLoop else NextRequest,
                          set_state p1 c ''PLAY''))
           | Some errRecord \<Rightarrow>
               (case res of
                  None \<Rightarrow> ([], Crash, p1)
                | Some r \<Rightarrow>
                    if \<not> write_ok then ([WriteResponse r], Exit, p1)
                    else ([WriteResponse r, SetState ''RECORD''],
                          if streamProtocol (heap p1 c) = STREAM_PROTOCOL_TCP
                          then InterleavedLoop else NextRequest,
                          set_state p1 c ''RECORD''))
           | Some errWrongKey \<Rightarrow> ([WriteResponse (unauthorized req)], Exit, p1)
           | Some (Errorf msg) \<Rightarrow> ([WriteResponse (bad_request req)], Exit, p1)))"

text \<open>When \<^verbatim>\<open>run\<close> returns, the deferred function of lines 141-145 closes the client.\<close>

definition run_deferred :: "program \<Rightarrow> cid \<Rightarrow> program option" where
  "run_deferred p c = close p c"

subsection \<open>Reachable registries and their invariant\<close>

text \<open>
  The registry starts empty (the server's start is outside \<^verbatim>\<open>src/\<close>). A connection
  allocates a client, at an address that no map refers to; a client handles requests;
  a client is closed.
\<close>

inductive reachable :: "externals \<Rightarrow> program \<Rightarrow> bool" for lib :: externals where
  start: "clients p = [] \<Longrightarrow> publishers p = Map.empty \<Longrightarrow> reachable lib p"
| connect: "reachable lib p \<Longrightarrow> c \<notin> set (clients p) \<Longrightarrow> c \<notin> ran (publishers p)
            \<Longrightarrow> reachable lib (newClient p c)"
| turn: "reachable lib p \<Longrightarrow> run_iteration lib w p c req = (evs, k, p') \<Longrightarrow> reachable lib p'"
| closed: "reachable lib p \<Longrightarrow> close p c = Some p' \<Longrightarrow> reachable lib p'"

text \<open>Every entry of \<^verbatim>\<open>publishers\<close> is a client bound to that path, with a parsed SDP,
  in one of the states of a publisher.\<close>

definition registry_inv :: "program \<Rightarrow> bool" where
  "registry_inv p =
     (\<forall>k c. publishers p k = Some c \<longrightarrow>
        path (heap p c) = k \<and> streamSdpParsed (heap p c) \<noteq> None
        \<and> state (heap p c) \<in> {''ANNOUNCE'', ''PRE_RECORD'', ''RECORD''})"

subsection \<open>The statements of the specification, for comparison\<close>


text \<open>The three conditions of PLAY: the state, the path, all tracks set up.\<close>

definition play_conditions :: "externals \<Rightarrow> program \<Rightarrow> cid \<Rightarrow> request \<Rightarrow> bool" where
  "play_conditions lib p c req =
     (state (heap p c) = ''PRE_PLAY''
      \<and> (case url_Parse lib (Url req) of
            None \<Rightarrow> False
          | Some ur \<Rightarrow> requestPath (Path ur) = path (heap p c))
      \<and> (case publishers p (path (heap p c)) of
            None \<Rightarrow> False
          | Some pub \<Rightarrow>
              (case streamSdpParsed (heap p pub) of
                 None \<Rightarrow> False
               | Some m \<Rightarrow> length (streamTracks (heap p c)) = length (Medias m))))"

subsection \<open>Concrete instances\<close>

text \<open>
  Instances of the parameters, for evaluation on concrete requests: a URL of the form
  \<^verbatim>\<open>rtsp://host/path?query\<close> without escapes, on which \<^verbatim>\<open>url.Parse\<close> gives this path and
  this query; a query of \<^verbatim>\<open>key=value\<close> pairs; an SDP whose medias are its \<^verbatim>\<open>m=\<close> lines;
  maps enumerated in the order of the header.
\<close>

definition demo_url_Parse :: "string \<Rightarrow> url_URL option" where
  "demo_url_Parse u =
     (let hostless = dropWhile (\<lambda>ch. ch \<noteq> CHR ''/'' \<and> ch \<noteq> CHR ''?'') (drop 7 u)
      in Some \<lparr>Path = takeWhile (\<lambda>ch. ch \<noteq> CHR ''?'') hostless,
               RawQuery = drop 1 (dropWhile (\<lambda>ch. ch \<noteq> CHR ''?'') hostless)\<rparr>)"

definition demo_url_ParseQuery :: "string \<Rightarrow> (string \<rightharpoonup> string list) option" where
  "demo_url_ParseQuery qs =
     Some (\<lambda>k. (let vs = map (drop (length k + 1))
                          (filter (\<lambda>kv. strings_HasPrefix kv (k @ ''=''))
                             (strings_Split qs CHR ''&''))
                 in if vs = [] then None else Some vs))"

definition demo_sdp_Decode :: "string \<Rightarrow> string + sdp_Message" where
  "demo_sdp_Decode b =
     (if b = [] then Inl ''EOF''
      else Inr \<lparr>Medias = filter (\<lambda>l. strings_HasPrefix l ''m='') (strings_Split b (CHR 0x0A))\<rparr>)"

definition demo_lib :: externals where
  "demo_lib = \<lparr>url_Parse = demo_url_Parse, url_ParseQuery = demo_url_ParseQuery,
               sdp_Decode = demo_sdp_Decode, map_range = (\<lambda>ts. ts)\<rparr>"

text \<open>A client as \<^verbatim>\<open>newClient\<close> makes it, and the same client after steps of a session.\<close>

definition fresh_client :: client where
  "fresh_client = \<lparr>rconn_closed = False, state = ''STARTING'', path = [],
                   streamSdpText = [], streamSdpParsed = None,
                   streamProtocol = STREAM_PROTOCOL_UDP, streamTracks = []\<rparr>"

text \<open>A two-media SDP (video and audio), reduced to its \<^verbatim>\<open>m=\<close> lines.\<close>

definition demo_sdp :: string where
  "demo_sdp = ''m=video'' @ [CHR 0x0A] @ ''m=audio''"

text \<open>The registry of a server without publish key in which client 0 has announced
  \<open>demo_sdp\<close> on the path \<^verbatim>\<open>cam\<close> and client 1 has just connected.\<close>

definition demo_publisher :: client where
  "demo_publisher = fresh_client\<lparr>state := ''ANNOUNCE'', path := ''cam'',
                      streamSdpText := demo_sdp,
                      streamSdpParsed := Some \<lparr>Medias = [''m=video'', ''m=audio'']\<rparr>\<rparr>"

definition demo_registry :: program where
  "demo_registry =
     \<lparr>clients = [1, 0], publishers = [''cam'' \<mapsto> 0], publishKey = [],
      p_rtpPort = 8000, p_rtcpPort = 8001,
      heap = (\<lambda>a. fresh_client)(0 := demo_publisher)\<rparr>"

text \<open>The registry of a server that has just started, and requests.\<close>

definition demo_start :: program where
  "demo_start = \<lparr>clients = [], publishers = Map.empty, publishKey = [],
                  p_rtpPort = 8000, p_rtcpPort = 8001, heap = (\<lambda>a. fresh_client)\<rparr>"

definition demo_request :: "string \<Rightarrow> string \<Rightarrow> (string \<times> string) list \<Rightarrow> string \<Rightarrow> request" where
  "demo_request m u hs body = \<lparr>Method = m, Url = u, Headers = map_of hs, Content = body\<rparr>"

text \<open>\<open>demo_registry\<close> with the struct of client \<open>c\<close> replaced.\<close>

definition demo_with :: "cid \<Rightarrow> client \<Rightarrow> program" where
  "demo_with c cl = demo_registry\<lparr>heap := (heap demo_registry)(c := cl)\<rparr>"

text \<open>A reader of the path \<^verbatim>\<open>cam\<close> that has set up the tracks \<open>ts\<close> over UDP, and the
  publisher of \<^verbatim>\<open>cam\<close> after the SETUP of its first track over TCP.\<close>

definition demo_reader :: "track list \<Rightarrow> client" where
  "demo_reader ts = fresh_client\<lparr>state := ''PRE_PLAY'', path := ''cam'', streamTracks := ts\<rparr>"

definition demo_publisher_tcp :: client where
  "demo_publisher_tcp = demo_publisher\<lparr>state := ''PRE_RECORD'',
      streamProtocol := STREAM_PROTOCOL_TCP, streamTracks := [\<lparr>rtpPort = 0, rtcpPort = 0\<rparr>]\<rparr>"

text \<open>An ANNOUNCE of \<open>demo_sdp\<close> on the URL \<open>u\<close>.\<close>

definition demo_announce :: "string \<Rightarrow> request" where
  "demo_announce u = demo_request ''ANNOUNCE'' u
     [(''CSeq'', ''2''), (''Content-Type'', ''application/sdp'')] demo_sdp"

text \<open>A registry with three clients: the publisher 0 of \<^verbatim>\<open>cam\<close>, a reader 1 of \<^verbatim>\<open>cam\<close>, and
  client 2, which has just connected.\<close>

definition demo_three :: program where
  "demo_three =
     (demo_with 1 (demo_reader [\<lparr>rtpPort = 6000, rtcpPort = 6001\<rparr>]))\<lparr>clients := [2, 1, 0]\<rparr>"

section \<open>Properties\<close>

subsection \<open>Interleaved channels\<close>

lemma smod2_nonneg: "0 \<le> (c::int) \<Longrightarrow> c smod 2 = c mod 2"
  by (simp add: signed_modulo_int_def sgn_if)

lemma sdiv2_nonneg: "0 \<le> (c::int) \<Longrightarrow> c sdiv 2 = c div 2"
  by (simp add: signed_divide_int_def sgn_if)

text \<open>A value in the 64-bit range is not changed by the wrap-around.\<close>

lemma wrap64_id: "- (2 ^ 63) \<le> x \<Longrightarrow> x < 2 ^ 63 \<Longrightarrow> wrap64 x = x"
  by (simp add: wrap64_def)

lemma wrap64_range: "- (2 ^ 63) \<le> wrap64 x \<and> wrap64 x < 2 ^ 63"
proof -
  have "0 \<le> (x + 2 ^ 63) mod (2 ^ 64 :: int)" "(x + 2 ^ 63) mod (2 ^ 64 :: int) < 2 ^ 64"
    by simp_all
  then show ?thesis by (simp add: wrap64_def)
qed

text \<open>Below \<open>2 ^ 62\<close> the multiplication of lines 34 and 36 does not wrap.\<close>

lemma trackToInterleavedChannel_small:
  assumes "0 \<le> i" "i < 2 ^ 62"
  shows "trackToInterleavedChannel i TRACK_FLOW_RTP = 2 * i"
    and "trackToInterleavedChannel i TRACK_FLOW_RTCP = 2 * i + 1"
  using assms by (simp_all add: trackToInterleavedChannel_def wrap64_id)

lemma trackToInterleavedChannel_int64:
  "0 \<le> i \<Longrightarrow> i < 2 ^ 62
   \<Longrightarrow> 0 \<le> trackToInterleavedChannel i f \<and> trackToInterleavedChannel i f < 2 ^ 63"
  by (cases f) (simp_all add: trackToInterleavedChannel_small)

lemma decode_encode:
  assumes "0 \<le> i" "i < 2 ^ 62"
  shows "interleavedChannelToTrack (trackToInterleavedChannel i f) = (i, f)"
proof (cases f)
  case TRACK_FLOW_RTP
  with assms show ?thesis
    by (simp add: trackToInterleavedChannel_small interleavedChannelToTrack_def
        smod2_nonneg sdiv2_nonneg)
next
  case TRACK_FLOW_RTCP
  from assms have "wrap64 (2 * i + 1 - 1) = 2 * i" by (simp add: wrap64_id)
  with assms TRACK_FLOW_RTCP show ?thesis
    by (simp add: trackToInterleavedChannel_small interleavedChannelToTrack_def
        smod2_nonneg sdiv2_nonneg)
qed

lemma encode_decode:
  assumes "0 \<le> c" "c < 2 ^ 63"
  shows "0 \<le> fst (interleavedChannelToTrack c) \<and> fst (interleavedChannelToTrack c) < 2 ^ 62
    \<and> trackToInterleavedChannel (fst (interleavedChannelToTrack c))
        (snd (interleavedChannelToTrack c)) = c"
proof (cases "c mod 2 = 0")
  case True
  then have "2 * (c div 2) = c" by presburger
  moreover from assms have "0 \<le> c div 2" "c div 2 < 2 ^ 62" by simp_all
  ultimately show ?thesis using assms True
    by (simp add: interleavedChannelToTrack_def smod2_nonneg sdiv2_nonneg
        trackToInterleavedChannel_small)
next
  case False
  with assms have c1: "1 \<le> c" "c mod 2 = 1" by presburger+
  with assms have w: "wrap64 (c - 1) = c - 1" by (simp add: wrap64_id)
  from c1 have "2 * ((c - 1) div 2) + 1 = c" "0 \<le> (c - 1) div 2" by presburger+
  moreover from assms c1 have "(c - 1) div 2 < 2 ^ 62" by simp
  ultimately show ?thesis using assms False c1 w
    by (simp add: interleavedChannelToTrack_def smod2_nonneg sdiv2_nonneg
        trackToInterleavedChannel_small)
qed

text \<open>
  C9, as the code has it on a 64-bit \<^verbatim>\<open>int\<close>. The channel mapping is a bijection between
  the non-negative channels (\<open>0 \<le> c < 2 ^ 63\<close>) and the pairs of a track index
  \<open>0 \<le> i < 2 ^ 62\<close> and a flow: for every such \<open>i\<close> and every flow \<open>f\<close>,
  \<open>trackToInterleavedChannel\<close> maps \<open>(i, RTP)\<close> to \<open>2i\<close> and \<open>(i, RTCP)\<close> to \<open>2i + 1\<close>, and
  \<open>interleavedChannelToTrack\<close> applied to that channel returns \<open>(i, f)\<close>; conversely, for
  every channel \<open>c \<ge> 0\<close>, the decoded track index is below \<open>2 ^ 62\<close> and encoding the
  decoded pair returns \<open>c\<close>.
\<close>

theorem channel_mapping_bijection:
  "(0 \<le> i \<and> i < 2 ^ 62 \<longrightarrow>
      trackToInterleavedChannel i TRACK_FLOW_RTP = 2 * i
      \<and> trackToInterleavedChannel i TRACK_FLOW_RTCP = 2 * i + 1
      \<and> 0 \<le> trackToInterleavedChannel i f \<and> trackToInterleavedChannel i f < 2 ^ 63
      \<and> interleavedChannelToTrack (trackToInterleavedChannel i f) = (i, f))
   \<and> (0 \<le> c \<and> c < 2 ^ 63 \<longrightarrow>
      0 \<le> fst (interleavedChannelToTrack c) \<and> fst (interleavedChannelToTrack c) < 2 ^ 62
      \<and> trackToInterleavedChannel (fst (interleavedChannelToTrack c))
           (snd (interleavedChannelToTrack c)) = c)
   \<and> bij_betw (\<lambda>(i, f). trackToInterleavedChannel i f) ({0..<2 ^ 62} \<times> UNIV) {0..<2 ^ 63}"
proof (intro conjI impI)
  show "bij_betw (\<lambda>(i, f). trackToInterleavedChannel i f) ({0..<2 ^ 62} \<times> UNIV) {0..<2 ^ 63}"
  proof (rule bij_betw_byWitness [where f' = interleavedChannelToTrack])
    show "\<forall>a\<in>{0..<2 ^ 62} \<times> UNIV.
        interleavedChannelToTrack (case a of (i, f) \<Rightarrow> trackToInterleavedChannel i f) = a"
      by (simp add: decode_encode split_beta)
    show "\<forall>a'\<in>{0..<2 ^ 63}.
        (case interleavedChannelToTrack a' of (i, f) \<Rightarrow> trackToInterleavedChannel i f) = a'"
      by (simp add: encode_decode split_beta)
    show "(\<lambda>(i, f). trackToInterleavedChannel i f) ` ({0..<2 ^ 62} \<times> UNIV) \<subseteq> {0..<2 ^ 63}"
    proof
      fix x assume "x \<in> (\<lambda>(i, f). trackToInterleavedChannel i f) ` ({0..<2 ^ 62} \<times> UNIV)"
      then obtain i f where "0 \<le> i" "i < 2 ^ 62" "x = trackToInterleavedChannel i f" by auto
      then show "x \<in> {0..<2 ^ 63}"
        using trackToInterleavedChannel_int64 [of i f] by simp
    qed
    show "interleavedChannelToTrack ` {0..<2 ^ 63} \<subseteq> {0..<2 ^ 62} \<times> UNIV"
    proof
      fix x assume "x \<in> interleavedChannelToTrack ` {0..<2 ^ 63}"
      then obtain c where c: "0 \<le> c" "c < 2 ^ 63" "x = interleavedChannelToTrack c" by auto
      then show "x \<in> {0..<2 ^ 62} \<times> UNIV"
        using encode_decode [OF c(1,2)] by (simp add: mem_Times_iff)
    qed
  qed
next
  assume "0 \<le> i \<and> i < 2 ^ 62"
  then show "trackToInterleavedChannel i TRACK_FLOW_RTP = 2 * i"
    "trackToInterleavedChannel i TRACK_FLOW_RTCP = 2 * i + 1"
    "0 \<le> trackToInterleavedChannel i f" "trackToInterleavedChannel i f < 2 ^ 63"
    "interleavedChannelToTrack (trackToInterleavedChannel i f) = (i, f)"
    using trackToInterleavedChannel_int64 [of i f]
    by (simp_all add: trackToInterleavedChannel_small decode_encode)
next
  assume "0 \<le> c \<and> c < 2 ^ 63"
  then show "0 \<le> fst (interleavedChannelToTrack c)" "fst (interleavedChannelToTrack c) < 2 ^ 62"
    "trackToInterleavedChannel (fst (interleavedChannelToTrack c))
           (snd (interleavedChannelToTrack c)) = c"
    using encode_decode [of c] by simp_all
qed

text \<open>Track 3: RTP on channel 6, RTCP on channel 7.\<close>

theorem channel_mapping_bijection_witness:
  "(0::int) \<le> 3 \<and> (3::int) < 2 ^ 62 \<and> (0::int) \<le> 6 \<and> (6::int) < 2 ^ 63
   \<and> trackToInterleavedChannel 3 TRACK_FLOW_RTCP = 7
   \<and> interleavedChannelToTrack 7 = (3, TRACK_FLOW_RTCP)
   \<and> interleavedChannelToTrack 6 = (3, TRACK_FLOW_RTP)
   \<and> trackToInterleavedChannel (fst (interleavedChannelToTrack 6))
        (snd (interleavedChannelToTrack 6)) = 6"
  using channel_mapping_bijection [of 3 TRACK_FLOW_RTCP 6]
  by (simp add: trackToInterleavedChannel_def interleavedChannelToTrack_def wrap64_def
      signed_modulo_int_def signed_divide_int_def)

text \<open>C9 as stated fails at the track index \<open>2 ^ 62\<close>: the multiplication of line 34 wraps
  to the channel \<open>- 2 ^ 63\<close>, which is negative and decodes to the track \<open>- 2 ^ 62\<close>.\<close>

theorem channel_mapping_wrap_counterexample:
  "(0::int) \<le> 2 ^ 62 \<and> (2::int) ^ 62 < 2 ^ 63
   \<and> trackToInterleavedChannel (2 ^ 62) TRACK_FLOW_RTP = - (2 ^ 63)
   \<and> trackToInterleavedChannel (2 ^ 62) TRACK_FLOW_RTP \<noteq> 2 * 2 ^ 62
   \<and> interleavedChannelToTrack (trackToInterleavedChannel (2 ^ 62) TRACK_FLOW_RTP)
        = (- (2 ^ 62), TRACK_FLOW_RTP)"
  by (simp add: trackToInterleavedChannel_def interleavedChannelToTrack_def wrap64_def
      signed_modulo_int_def signed_divide_int_def)

subsection \<open>close\<close>

lemma delete_and_Close_simps [simp]:
  "clients (delete_and_Close p c) = removeAll c (clients p)"
  "publishers (delete_and_Close p c) = publishers p"
  "publishKey (delete_and_Close p c) = publishKey p"
  "path (heap (delete_and_Close p c) a) = path (heap p a)"
  "state (heap (delete_and_Close p c) a) = state (heap p a)"
  "streamSdpParsed (heap (delete_and_Close p c) a) = streamSdpParsed (heap p a)"
  "rconn_closed (heap (delete_and_Close p c) a) = (a = c \<or> rconn_closed (heap p a))"
  by (simp_all add: delete_and_Close_def)

lemma close_fuel_plain:
  assumes "c \<in> set (clients p)"
    and "\<not> (path (heap p c) \<noteq> [] \<and> publishers p (path (heap p c)) = Some c)"
  shows "close_fuel (Suc n) p c = Some (delete_and_Close p c)"
  using assms by (auto simp: close_fuel.simps Let_def)

lemma close_others_Nil: "close_others r k [] = r"
  by (simp add: close_others_def)

lemma close_others_skip:
  assumes "\<not> (x \<in> set (clients r) \<and> path (heap r x) = k)"
  shows "close_others r k (x # xs) = close_others r k xs"
proof -
  have "filter (\<lambda>oc. \<not> (oc \<in> set (x # xs) \<and> path (heap r oc) = k)) (clients r)
      = filter (\<lambda>oc. \<not> (oc \<in> set xs \<and> path (heap r oc) = k)) (clients r)"
    using assms by (intro filter_cong) auto
  moreover have "(\<lambda>oc. if oc \<in> set (x # xs) \<and> oc \<in> set (clients r) \<and> path (heap r oc) = k
                      then (heap r oc)\<lparr>rconn_closed := True\<rparr> else heap r oc)
      = (\<lambda>oc. if oc \<in> set xs \<and> oc \<in> set (clients r) \<and> path (heap r oc) = k
                      then (heap r oc)\<lparr>rconn_closed := True\<rparr> else heap r oc)"
    using assms by (auto simp: fun_eq_iff)
  ultimately show ?thesis unfolding close_others_def by simp
qed

lemma close_others_step:
  assumes "x \<in> set (clients r)" "path (heap r x) = k"
  shows "close_others r k (x # xs) = close_others (delete_and_Close r x) k xs"
proof -
  let ?A = "filter (\<lambda>oc. \<not> (oc \<in> set (x # xs) \<and> path (heap r oc) = k)) (clients r)"
  let ?B = "\<lambda>oc. if oc \<in> set (x # xs) \<and> oc \<in> set (clients r) \<and> path (heap r oc) = k
                  then (heap r oc)\<lparr>rconn_closed := True\<rparr> else heap r oc"
  have A: "filter (\<lambda>oc. \<not> (oc \<in> set xs \<and> path (heap (delete_and_Close r x) oc) = k))
             (clients (delete_and_Close r x)) = ?A"
    using assms by (simp add: removeAll_filter_not_eq) (rule filter_cong, auto)
  have B: "(\<lambda>oc. if oc \<in> set xs \<and> oc \<in> set (clients (delete_and_Close r x))
                    \<and> path (heap (delete_and_Close r x) oc) = k
                 then (heap (delete_and_Close r x) oc)\<lparr>rconn_closed := True\<rparr>
                 else heap (delete_and_Close r x) oc) = ?B"
    using assms by (auto simp: fun_eq_iff delete_and_Close_def)
  have "close_others (delete_and_Close r x) k xs = (delete_and_Close r x)\<lparr>clients := ?A, heap := ?B\<rparr>"
    unfolding close_others_def A B ..
  also have "\<dots> = r\<lparr>clients := ?A, heap := ?B\<rparr>"
    by (simp add: delete_and_Close_def)
  finally show ?thesis unfolding close_others_def ..
qed

lemma close_loop:
  assumes "publishers r k = None" "path (heap r c) = k"
  shows "fold (\<lambda>oc acc. (case acc of None \<Rightarrow> None
                         | Some r' \<Rightarrow> if oc \<in> set (clients r') \<and> path (heap r' oc) = path (heap r' c)
                                      then close_fuel (Suc m) r' oc else Some r'))
              xs (Some r) = Some (close_others r k xs)"
  using assms
proof (induction xs arbitrary: r)
  case Nil
  then show ?case by (simp add: close_others_Nil)
next
  case (Cons x xs)
  show ?case
  proof (cases "x \<in> set (clients r) \<and> path (heap r x) = k")
    case True
    then have cl: "close_fuel (Suc m) r x = Some (delete_and_Close r x)"
      using Cons.prems by (intro close_fuel_plain) auto
    have "publishers (delete_and_Close r x) k = None" "path (heap (delete_and_Close r x) c) = k"
      using Cons.prems by auto
    from Cons.IH [OF this] True cl Cons.prems show ?thesis
      by (simp add: close_others_step)
  next
    case False
    with Cons.IH [OF Cons.prems] Cons.prems show ?thesis
      by (auto simp add: close_others_skip)
  qed
qed

lemma close_fuel_in: 
  assumes c: "c \<in> set (clients p)"
  shows "close_fuel (Suc (Suc m)) p c = Some (close_result p c)"
proof (cases "path (heap p c) \<noteq> [] \<and> publishers p (path (heap p c)) = Some c")
  case False
  with c show ?thesis
    by (auto simp: close_fuel_plain close_result_def)
next
  case True
  let ?k = "path (heap p c)"
  let ?p2 = "(delete_and_Close p c)\<lparr>publishers := (publishers p)(?k := None)\<rparr>"
  have "publishers ?p2 ?k = None" "path (heap ?p2 c) = ?k"
    by simp_all
  from close_loop [OF this, of m "clients ?p2"] c True show ?thesis
    by (simp add: close_result_def Let_def close_fuel.simps(2) [of "Suc m"])
qed

lemma close_fuel_out:
  "c \<notin> set (clients p) \<Longrightarrow> close_fuel (Suc m) p c = Some (close_result p c)"
  by (simp add: close_result_def close_fuel.simps)

lemma close_eq: "close p c = Some (close_result p c)"
proof (cases "c \<in> set (clients p)")
  case True
  then obtain m where "length (clients p) = Suc m"
    by (cases "clients p") auto
  with True show ?thesis by (simp add: close_def close_fuel_in)
next
  case False
  then show ?thesis by (simp add: close_def close_fuel_out)
qed

lemma close_result_clients: "c \<notin> set (clients (close_result p c))"
  by (simp add: close_result_def close_others_def)

lemma close_result_idem: "close_result (close_result p c) c = close_result p c"
  using close_result_clients [of c p] by (simp add: close_result_def [of "close_result p c"])

subsection \<open>A call that returns an error changes nothing\<close>

lemma handle_ANNOUNCE_error:
  "handle_ANNOUNCE lib p c req cseq ur rpath = (Return res (Some e), p') \<Longrightarrow> p' = p"
  by (auto simp: handle_ANNOUNCE_def split: if_splits option.splits sum.splits)

lemma setup_play_udp_error:
  "setup_play_udp lib p c cseq rpath ts th = (Return res (Some e), p') \<Longrightarrow> p' = p"
  by (auto simp: setup_play_udp_def Let_def split: if_splits option.splits prod.splits)

lemma setup_play_tcp_error:
  "setup_play_tcp p c cseq rpath = (Return res (Some e), p') \<Longrightarrow> p' = p"
  by (auto simp: setup_play_tcp_def Let_def split: if_splits option.splits)

lemma setup_record_udp_error:
  "setup_record_udp lib p c cseq ts th = (Return res (Some e), p') \<Longrightarrow> p' = p"
  by (auto simp: setup_record_udp_def Let_def split: if_splits option.splits prod.splits)

lemma setup_record_tcp_error:
  "setup_record_tcp lib p c cseq th = (Return res (Some e), p') \<Longrightarrow> p' = p"
  by (auto simp: setup_record_tcp_def Let_def split: if_splits option.splits)

lemmas setup_errors = setup_play_udp_error setup_play_tcp_error setup_record_udp_error
  setup_record_tcp_error

lemma handle_SETUP_error:
  "handle_SETUP lib p c req cseq rpath = (Return res (Some e), p') \<Longrightarrow> p' = p"
  by (auto simp: handle_SETUP_def Let_def split: if_splits option.splits dest: setup_errors)

lemma handle_PAUSE_error:
  "handle_PAUSE p c cseq rpath = (Return res (Some e), p') \<Longrightarrow> p' = p"
  by (auto simp: handle_PAUSE_def split: if_splits)

lemma handleRequest_error:
  "handleRequest lib p c req = (Return res (Some e), p') \<Longrightarrow> p' = p"
  by (auto simp: handleRequest_def Let_def split: if_splits option.splits
      dest: handle_ANNOUNCE_error handle_SETUP_error handle_PAUSE_error)

subsection \<open>No call replaces or removes an installed publisher\<close>









subsection \<open>The invariant of the registry\<close>

lemma registry_invD:
  "registry_inv p \<Longrightarrow> publishers p k = Some a \<Longrightarrow>
     path (heap p a) = k \<and> streamSdpParsed (heap p a) \<noteq> None
     \<and> state (heap p a) \<in> {''ANNOUNCE'', ''PRE_RECORD'', ''RECORD''}"
  unfolding registry_inv_def by blast

lemma reader_not_publisher:
  "registry_inv p \<Longrightarrow> state (heap p c) \<notin> {''ANNOUNCE'', ''PRE_RECORD'', ''RECORD''}
   \<Longrightarrow> publishers p k \<noteq> Some c"
  unfolding registry_inv_def by blast

lemma inv_update_reader:
  assumes "registry_inv p" "state (heap p c) \<notin> {''ANNOUNCE'', ''PRE_RECORD'', ''RECORD''}"
  shows "registry_inv (p\<lparr>heap := (heap p)(c := cl)\<rparr>)"
  using assms(1) reader_not_publisher [OF assms] unfolding registry_inv_def by auto

lemma inv_update_publisher:
  assumes "registry_inv p" "path cl = path (heap p c)" "streamSdpParsed cl = streamSdpParsed (heap p c)"
    "state cl \<in> {''ANNOUNCE'', ''PRE_RECORD'', ''RECORD''}"
  shows "registry_inv (p\<lparr>heap := (heap p)(c := cl)\<rparr>)"
  using assms unfolding registry_inv_def by auto

lemma inv_install:
  assumes "registry_inv p" "state (heap p c) = ''STARTING''"
  shows "registry_inv (p\<lparr>publishers := (publishers p)(k \<mapsto> c),
         heap := (heap p)(c := (heap p c)\<lparr>path := k, streamSdpText := t,
                     streamSdpParsed := Some m, state := ''ANNOUNCE''\<rparr>)\<rparr>)"
proof -
  have "\<And>k. publishers p k \<noteq> Some c"
    using assms by (intro reader_not_publisher) auto
  with assms(1) show ?thesis
    unfolding registry_inv_def by auto
qed

lemma handle_ANNOUNCE_inv:
  assumes "registry_inv p"
  shows "registry_inv (snd (handle_ANNOUNCE lib p c req cseq ur rpath))"
  using assms by (simp add: handle_ANNOUNCE_def inv_install split: option.split sum.split)

lemma setup_play_udp_inv:
  assumes "registry_inv p" "state (heap p c) \<notin> {''ANNOUNCE'', ''PRE_RECORD'', ''RECORD''}"
  shows "registry_inv (snd (setup_play_udp lib p c cseq rpath ts th))"
  using assms
  by (simp add: setup_play_udp_def Let_def inv_update_reader split: option.split prod.split)

lemma setup_play_tcp_inv:
  assumes "registry_inv p" "state (heap p c) \<notin> {''ANNOUNCE'', ''PRE_RECORD'', ''RECORD''}"
  shows "registry_inv (snd (setup_play_tcp p c cseq rpath))"
  using assms
  by (simp add: setup_play_tcp_def Let_def inv_update_reader split: option.split)

lemma setup_record_udp_inv:
  assumes "registry_inv p"
  shows "registry_inv (snd (setup_record_udp lib p c cseq ts th))"
  using assms
  by (simp add: setup_record_udp_def Let_def inv_update_publisher split: option.split prod.split)

lemma setup_record_tcp_inv:
  assumes "registry_inv p"
  shows "registry_inv (snd (setup_record_tcp lib p c cseq th))"
  using assms
  by (simp add: setup_record_tcp_def Let_def inv_update_publisher split: option.split)

lemma handle_SETUP_inv:
  assumes "registry_inv p"
  shows "registry_inv (snd (handle_SETUP lib p c req cseq rpath))"
  using assms
  by (simp add: handle_SETUP_def Let_def setup_play_udp_inv setup_play_tcp_inv
      setup_record_udp_inv setup_record_tcp_inv split: option.split)

lemma handle_PAUSE_inv:
  assumes "registry_inv p"
  shows "registry_inv (snd (handle_PAUSE p c cseq rpath))"
  using assms by (simp add: handle_PAUSE_def inv_update_reader)

lemma handleRequest_inv:
  assumes "registry_inv p"
  shows "registry_inv (snd (handleRequest lib p c req))"
  using assms
  by (simp add: handleRequest_def Let_def handle_ANNOUNCE_inv handle_SETUP_inv handle_PAUSE_inv
      split: option.split)

subsection \<open>Which error a call returns\<close>

lemma check_publishKey_kind:
  "check_publishKey lib p ur = Some e \<Longrightarrow> (\<exists>m. e = Errorf m) \<or> (e = errWrongKey \<and> publishKey p \<noteq> [])"
  by (auto simp: check_publishKey_def split: if_splits option.splits)

lemma handle_ANNOUNCE_kind:
  "handle_ANNOUNCE lib p c req cseq ur rpath = (Return res (Some e), p')
   \<Longrightarrow> res = None \<and> ((\<exists>m. e = Errorf m) \<or> (e = errWrongKey \<and> publishKey p \<noteq> []))"
  by (auto simp: handle_ANNOUNCE_def split: if_splits option.splits sum.splits
      dest: check_publishKey_kind)

lemma setup_play_udp_kind:
  "setup_play_udp lib p c cseq rpath ts th = (Return res (Some e), p') \<Longrightarrow> res = None \<and> (\<exists>m. e = Errorf m)"
  by (auto simp: setup_play_udp_def Let_def split: if_splits option.splits prod.splits)

lemma setup_play_tcp_kind:
  "setup_play_tcp p c cseq rpath = (Return res (Some e), p') \<Longrightarrow> res = None \<and> (\<exists>m. e = Errorf m)"
  by (auto simp: setup_play_tcp_def Let_def split: if_splits option.splits)

lemma setup_record_udp_kind:
  "setup_record_udp lib p c cseq ts th = (Return res (Some e), p') \<Longrightarrow> res = None \<and> (\<exists>m. e = Errorf m)"
  by (auto simp: setup_record_udp_def Let_def split: if_splits option.splits prod.splits)

lemma setup_record_tcp_kind:
  "setup_record_tcp lib p c cseq th = (Return res (Some e), p') \<Longrightarrow> res = None \<and> (\<exists>m. e = Errorf m)"
  by (auto simp: setup_record_tcp_def Let_def split: if_splits option.splits)

lemma handle_SETUP_kind:
  "handle_SETUP lib p c req cseq rpath = (Return res (Some e), p') \<Longrightarrow> res = None \<and> (\<exists>m. e = Errorf m)"
  by (auto simp: handle_SETUP_def Let_def split: if_splits option.splits
      dest: setup_play_udp_kind setup_play_tcp_kind setup_record_udp_kind setup_record_tcp_kind)

lemma handle_PAUSE_kind:
  "handle_PAUSE p c cseq rpath = (Return res (Some e), p') \<Longrightarrow> res = None \<and> (\<exists>m. e = Errorf m)"
  by (auto simp: handle_PAUSE_def split: if_splits)

lemma handle_DESCRIBE_kind:
  "handle_DESCRIBE p c req cseq rpath = Return res (Some e) \<Longrightarrow> res = None \<and> (\<exists>m. e = Errorf m)"
  by (auto simp: handle_DESCRIBE_def split: if_splits option.splits)

lemma handle_PLAY_kind:
  "handle_PLAY p c cseq rpath = Return res (Some e) \<Longrightarrow>
     (res = None \<and> (\<exists>m. e = Errorf m)) \<or>
     (res = Some (session_response cseq) \<and> e = errPlay \<and> state (heap p c) = ''PRE_PLAY'')"
  by (auto simp: handle_PLAY_def split: if_splits option.splits)

lemma handle_RECORD_kind:
  "handle_RECORD p c cseq rpath = Return res (Some e) \<Longrightarrow>
     (res = None \<and> (\<exists>m. e = Errorf m)) \<or>
     (res = Some (session_response cseq) \<and> e = errRecord \<and> state (heap p c) = ''PRE_RECORD'')"
  by (auto simp: handle_RECORD_def split: if_splits option.splits)

lemma handleRequest_errPlay:
  assumes "handleRequest lib p c req = (Return res (Some errPlay), p')"
  shows "state (heap p c) = ''PRE_PLAY'' \<and> p' = p \<and> Method req = ''PLAY''"
  using assms
  by (auto simp: handleRequest_def Let_def handle_OPTIONS_def split: if_splits option.splits
      dest: handle_ANNOUNCE_kind handle_SETUP_kind handle_PAUSE_kind handle_DESCRIBE_kind
        handle_PLAY_kind handle_RECORD_kind)

lemma handleRequest_errRecord:
  assumes "handleRequest lib p c req = (Return res (Some errRecord), p')"
  shows "state (heap p c) = ''PRE_RECORD'' \<and> p' = p \<and> Method req = ''RECORD''"
  using assms
  by (auto simp: handleRequest_def Let_def handle_OPTIONS_def split: if_splits option.splits
      dest: handle_ANNOUNCE_kind handle_SETUP_kind handle_PAUSE_kind handle_DESCRIBE_kind
        handle_PLAY_kind handle_RECORD_kind)

subsection \<open>The invariant holds in every reachable registry\<close>

lemma set_state_inv_reader:
  "registry_inv p \<Longrightarrow> state (heap p c) = ''PRE_PLAY'' \<Longrightarrow> registry_inv (set_state p c st)"
  unfolding set_state_def by (rule inv_update_reader) auto

lemma set_state_inv_record:
  "registry_inv p \<Longrightarrow> registry_inv (set_state p c ''RECORD'')"
  unfolding set_state_def by (rule inv_update_publisher) auto

lemma run_iteration_inv:
  assumes "registry_inv p" "run_iteration lib w p c req = (evs, k, p')"
  shows "registry_inv p'"
proof -
  obtain out p1 where h: "handleRequest lib p c req = (out, p1)" by (cases "handleRequest lib p c req")
  have inv1: "registry_inv p1" using handleRequest_inv [OF assms(1), of lib c req] h by simp
  show ?thesis
  proof (cases out)
    case Panic
    with assms(2) h inv1 show ?thesis by (simp add: run_iteration_def)
  next
    case (Return res err)
    show ?thesis
    proof (cases err)
      case None
      with assms(2) h inv1 Return show ?thesis
        by (auto simp: run_iteration_def split: option.splits)
    next
      case (Some e)
      show ?thesis
      proof (cases e)
        case errPlay
        with h Return Some have "state (heap p c) = ''PRE_PLAY''" "p1 = p"
          using handleRequest_errPlay by blast+
        with assms h Return Some errPlay show ?thesis
          by (auto simp: run_iteration_def set_state_inv_reader split: option.splits if_splits)
      next
        case errRecord
        with assms(2) h Return Some inv1 show ?thesis
          by (auto simp: run_iteration_def set_state_inv_record split: option.splits if_splits)
      qed (use assms(2) h Return Some inv1 in \<open>auto simp: run_iteration_def\<close>)
    qed
  qed
qed

lemma close_others_simps [simp]:
  "publishers (close_others r k xs) = publishers r"
  "path (heap (close_others r k xs) a) = path (heap r a)"
  "state (heap (close_others r k xs) a) = state (heap r a)"
  "streamSdpParsed (heap (close_others r k xs) a) = streamSdpParsed (heap r a)"
  by (simp_all add: close_others_def)

lemma close_result_fields:
  "path (heap (close_result p c) a) = path (heap p a)"
  "state (heap (close_result p c) a) = state (heap p a)"
  "streamSdpParsed (heap (close_result p c) a) = streamSdpParsed (heap p a)"
  by (simp_all add: close_result_def)

lemma close_result_publishers:
  "publishers (close_result p c) k = Some a \<Longrightarrow> publishers p k = Some a"
  by (auto simp: close_result_def split: if_splits)

lemma close_result_inv: "registry_inv p \<Longrightarrow> registry_inv (close_result p c)"
  unfolding registry_inv_def 
  by (auto simp: close_result_fields dest!: close_result_publishers)

lemma newClient_inv:
  "registry_inv p \<Longrightarrow> c \<notin> ran (publishers p) \<Longrightarrow> registry_inv (newClient p c)"
  unfolding registry_inv_def newClient_def by (auto simp: ran_def)

lemma reachable_inv: "reachable lib p \<Longrightarrow> registry_inv p"
proof (induction rule: reachable.induct)
  case (start p)
  then show ?case by (simp add: registry_inv_def)
next
  case (connect p c)
  then show ?case by (simp add: newClient_inv)
next
  case (turn p w c req evs k p')
  then show ?case using run_iteration_inv by blast
next
  case (closed p c p')
  then show ?case using close_result_inv [of p c] by (simp add: close_eq)
qed

subsection \<open>Evaluation on concrete requests\<close>

lemmas demo_eval = demo_lib_def demo_url_Parse_def demo_url_ParseQuery_def demo_sdp_Decode_def
  demo_registry_def demo_publisher_def fresh_client_def demo_request_def demo_with_def
  demo_reader_def demo_publisher_tcp_def demo_start_def demo_sdp_def

lemmas handler_eval = handleRequest_def handle_OPTIONS_def handle_DESCRIBE_def handle_ANNOUNCE_def
  check_publishKey_def handle_SETUP_def setup_play_udp_def setup_play_tcp_def setup_record_udp_def
  setup_record_tcp_def handle_PLAY_def handle_PAUSE_def handle_RECORD_def requestPath_def
  newTransportHeader_def getClientPorts_def getKeyValue_def strings_HasPrefix_def
  strconv_ParseInt_def digit_of_def apos_def Let_def

text \<open>The states used below are reachable: client 0 connects and announces on
  \<^verbatim>\<open>cam\<close>, client 1 connects, and either sets up its first track.\<close>

lemma demo_start_reachable: "reachable demo_lib demo_start"
  by (rule reachable.start) (simp_all add: demo_start_def)

lemma demo_announce_turn:
  "run_iteration demo_lib True (newClient demo_start 0) 0 (demo_announce ''rtsp://h/cam'')
    = ([WriteResponse \<lparr>StatusCode = 200, Status = ''OK'', res_Headers = [''CSeq'' \<mapsto> ''2''],
                       res_Content = []\<rparr>], NextRequest,
       demo_registry\<lparr>clients := [0]\<rparr>)"
  by (simp add: run_iteration_def handler_eval demo_eval demo_announce_def newClient_def)

lemma demo_registry_connect: "newClient (demo_registry\<lparr>clients := [0]\<rparr>) 1 = demo_registry"
  by (simp add: newClient_def demo_eval fun_eq_iff)

lemma demo_registry_reachable: "reachable demo_lib demo_registry"
proof -
  have "reachable demo_lib (newClient demo_start 0)"
    by (rule reachable.connect [OF demo_start_reachable]) (simp_all add: demo_start_def)
  then have "reachable demo_lib (demo_registry\<lparr>clients := [0]\<rparr>)"
    using demo_announce_turn by (rule reachable.turn)
  then have "reachable demo_lib (newClient (demo_registry\<lparr>clients := [0]\<rparr>) 1)"
    by (rule reachable.connect) (simp_all add: demo_registry_def ran_def)
  then show ?thesis unfolding demo_registry_connect .
qed

lemma demo_setup_tcp_turn:
  "run_iteration demo_lib True demo_registry 0
     (demo_request ''SETUP'' ''rtsp://h/cam/trackID=0''
          [(''CSeq'', ''3''), (''Transport'', ''RTP/AVP/TCP;unicast;mode=record;interleaved=0-1'')] [])
   = ([WriteResponse (setup_response_tcp ''3'' ''0-1'')], NextRequest, demo_with 0 demo_publisher_tcp)"
  by (simp add: run_iteration_def handler_eval demo_eval expInterleaved_def sprintf_d_def
      nat_digits.simps digit_char_def)

lemma demo_setup_udp_turn:
  "run_iteration demo_lib True demo_registry 1
     (demo_request ''SETUP'' ''rtsp://h/cam/trackID=0''
          [(''CSeq'', ''3''), (''Transport'', ''RTP/AVP;unicast;client_port=6000-6001'')] [])
   = ([WriteResponse (setup_response_udp demo_registry ''3'' 6000 6001)], NextRequest,
      demo_with 1 (demo_reader [\<lparr>rtpPort = 6000, rtcpPort = 6001\<rparr>]))"
  by (simp add: run_iteration_def handler_eval demo_eval)

lemma demo_states_reachable:
  "reachable demo_lib (demo_with 0 demo_publisher_tcp)"
  "reachable demo_lib (demo_with 1 (demo_reader [\<lparr>rtpPort = 6000, rtcpPort = 6001\<rparr>]))"
  using demo_registry_reachable demo_setup_tcp_turn demo_setup_udp_turn
  by (blast intro: reachable.turn)+

lemma demo_with_inv:
  "registry_inv (demo_with 1 cl)"
  by (auto simp: registry_inv_def demo_eval split: if_splits)

subsection \<open>Error atomicity of the handler\<close>

text \<open>
  C10. Whenever \<open>handleRequest\<close> returns an error other than the sentinels \<open>errPlay\<close>,
  \<open>errRecord\<close> and \<open>errTeardown\<close>, the fields of the connection (state, path,
  streamProtocol, streamTracks, streamSdpText, streamSdpParsed) and the registry (the
  publishers map and the clients set) are exactly as they were before the request.
\<close>

theorem handleRequest_error_atomic:
  assumes "handleRequest lib p c req = (Return res (Some e), p')"
    and "e \<noteq> errPlay" and "e \<noteq> errRecord" and "e \<noteq> errTeardown"
  shows "p' = p
    \<and> state (heap p' c) = state (heap p c) \<and> path (heap p' c) = path (heap p c)
    \<and> streamProtocol (heap p' c) = streamProtocol (heap p c)
    \<and> streamTracks (heap p' c) = streamTracks (heap p c)
    \<and> streamSdpText (heap p' c) = streamSdpText (heap p c)
    \<and> streamSdpParsed (heap p' c) = streamSdpParsed (heap p c)
    \<and> publishers p' = publishers p \<and> clients p' = clients p"
  using handleRequest_error [OF assms(1)] by simp

text \<open>A SETUP of the publisher's second TCP track that proposes the channels 2-4 is
  refused and leaves the registry as it was.\<close>

theorem handleRequest_error_atomic_witness:
  "handleRequest demo_lib (demo_with 0 demo_publisher_tcp) 0
     (demo_request ''SETUP'' ''rtsp://h/cam/trackID=1''
        [(''CSeq'', ''4''), (''Transport'', ''RTP/AVP/TCP;unicast;mode=record;interleaved=2-4'')] [])
   = (fail (''wrong interleaved value, expected '' @ apos @ ''2-3'' @ apos @ '', got '' @ apos @ ''2-4'' @ apos),
      demo_with 0 demo_publisher_tcp)"
proof -
  have e: "handleRequest demo_lib (demo_with 0 demo_publisher_tcp) 0
     (demo_request ''SETUP'' ''rtsp://h/cam/trackID=1''
        [(''CSeq'', ''4''), (''Transport'', ''RTP/AVP/TCP;unicast;mode=record;interleaved=2-4'')] [])
   = (fail (''wrong interleaved value, expected '' @ apos @ ''2-3'' @ apos @ '', got '' @ apos @ ''2-4'' @ apos),
      snd (handleRequest demo_lib (demo_with 0 demo_publisher_tcp) 0
     (demo_request ''SETUP'' ''rtsp://h/cam/trackID=1''
        [(''CSeq'', ''4''), (''Transport'', ''RTP/AVP/TCP;unicast;mode=record;interleaved=2-4'')] [])))"
    by (simp add: handler_eval demo_eval expInterleaved_def sprintf_d_def nat_digits.simps
        digit_char_def)
  from handleRequest_error_atomic [OF e] e show ?thesis by simp
qed

subsection \<open>The turn of the loop on an error\<close>

lemma run_iteration_fail:
  "handleRequest lib p c req = (fail m, p') \<Longrightarrow>
   run_iteration lib w p c req = ([WriteResponse (bad_request req)], Exit, p')"
  by (simp add: run_iteration_def)

lemma run_deferred_closes:
  "\<exists>p'. run_deferred p c = Some p' \<and> c \<notin> set (clients p')
        \<and> (c \<in> set (clients p) \<longrightarrow> rconn_closed (heap p' c))"
  by (auto simp: run_deferred_def close_eq close_result_clients close_result_def close_others_def)

lemma cseq_missing:
  "Headers req ''CSeq'' = None \<Longrightarrow> handleRequest lib p c req = (fail ''cseq missing'', p)"
  by (simp add: handleRequest_def)

lemma url_unparsed:
  "Headers req ''CSeq'' = Some cseq \<Longrightarrow> url_Parse lib (Url req) = None \<Longrightarrow>
   handleRequest lib p c req = (fail (''unable to parse path '' @ apos @ Url req @ apos), p)"
  by (simp add: handleRequest_def)

subsection \<open>CSeq and OPTIONS\<close>




subsection \<open>TEARDOWN\<close>

text \<open>
  C6, as the code has it. For every TEARDOWN request that carries a CSeq header and whose
  URL parses, in every connection state (STARTING included), the server writes no
  response and \<^verbatim>\<open>run\<close> returns; a TEARDOWN that lacks CSeq or whose URL does not parse is
  answered 400 Bad Request before \<^verbatim>\<open>run\<close> returns. In both cases the deferred close
  removes the client from the clients set and closes its socket.
\<close>

theorem teardown_closes_silently:
  assumes "Method req = ''TEARDOWN''"
  shows "(Headers req ''CSeq'' = Some cseq \<and> url_Parse lib (Url req) = Some ur \<longrightarrow>
            handleRequest lib p c req = (Return None (Some errTeardown), p)
            \<and> run_iteration lib w p c req = ([], Exit, p))
         \<and> (Headers req ''CSeq'' = None \<or> url_Parse lib (Url req) = None \<longrightarrow>
            run_iteration lib w p c req = ([WriteResponse (bad_request req)], Exit, p)
            \<and> StatusCode (bad_request req) = 400)
         \<and> (\<exists>p'. run_deferred p c = Some p' \<and> c \<notin> set (clients p')
                \<and> (c \<in> set (clients p) \<longrightarrow> rconn_closed (heap p' c)))"
proof (intro conjI impI)
  assume a: "Headers req ''CSeq'' = Some cseq \<and> url_Parse lib (Url req) = Some ur"
  with assms show h: "handleRequest lib p c req = (Return None (Some errTeardown), p)"
    by (simp add: handleRequest_def)
  then show "run_iteration lib w p c req = ([], Exit, p)"
    by (simp add: run_iteration_def)
next
  assume "Headers req ''CSeq'' = None \<or> url_Parse lib (Url req) = None"
  then show "run_iteration lib w p c req = ([WriteResponse (bad_request req)], Exit, p)"
  proof
    assume "Headers req ''CSeq'' = None"
    then show ?thesis by (simp add: cseq_missing run_iteration_fail)
  next
    assume u: "url_Parse lib (Url req) = None"
    show ?thesis
    proof (cases "Headers req ''CSeq''")
      case None
      then show ?thesis by (simp add: cseq_missing run_iteration_fail)
    next
      case (Some v)
      then show ?thesis using u by (simp add: url_unparsed run_iteration_fail)
    qed
  qed
next
  show "StatusCode (bad_request req) = 400"
    by (simp add: bad_request_def split: option.split)
next
  show "\<exists>p'. run_deferred p c = Some p' \<and> c \<notin> set (clients p')
                \<and> (c \<in> set (clients p) \<longrightarrow> rconn_closed (heap p' c))"
    by (rule run_deferred_closes)
qed

text \<open>Client 1 of \<open>demo_registry\<close> tears down: nothing is written, and the deferred
  close leaves client 0 alone in the registry.\<close>

theorem teardown_closes_silently_witness:
  "Method (demo_request ''TEARDOWN'' ''rtsp://h/cam'' [(''CSeq'', ''2'')] []) = ''TEARDOWN''
   \<and> run_iteration demo_lib True demo_registry 1
        (demo_request ''TEARDOWN'' ''rtsp://h/cam'' [(''CSeq'', ''2'')] []) = ([], Exit, demo_registry)
   \<and> run_deferred demo_registry 1 = Some (delete_and_Close demo_registry 1)
   \<and> clients (delete_and_Close demo_registry 1) = [0]
   \<and> rconn_closed (heap (delete_and_Close demo_registry 1) 1)"
  using teardown_closes_silently [of "demo_request ''TEARDOWN'' ''rtsp://h/cam'' [(''CSeq'', ''2'')] []"
      "''2''" demo_lib "\<lparr>Path = ''/cam'', RawQuery = []\<rparr>" demo_registry 1 True]
  by (simp add: demo_request_def demo_lib_def demo_url_Parse_def run_deferred_def close_eq
      close_result_def) (simp add: demo_registry_def fresh_client_def delete_and_Close_def)

text \<open>C6 as stated fails on a TEARDOWN without CSeq in state STARTING: a 400 response
  is written.\<close>

theorem teardown_without_cseq_counterexample:
  "run_iteration demo_lib True (newClient demo_start 0) 0
       (demo_request ''TEARDOWN'' ''rtsp://h/cam'' [] [])
     = ([WriteResponse \<lparr>StatusCode = 400, Status = ''Bad Request'',
                            res_Headers = Map.empty, res_Content = []\<rparr>], Exit, newClient demo_start 0)
   \<and> state (heap (newClient demo_start 0) 0) = ''STARTING''"
  by (simp add: run_iteration_def handleRequest_def bad_request_def demo_request_def newClient_def)

subsection \<open>PLAY\<close>

lemma handleRequest_PLAY:
  "Method req = ''PLAY'' \<Longrightarrow> Headers req ''CSeq'' = Some cseq \<Longrightarrow> url_Parse lib (Url req) = Some ur
   \<Longrightarrow> handleRequest lib p c req = (handle_PLAY p c cseq (requestPath (Path ur)), p)"
  by (simp add: handleRequest_def)

lemma handle_PLAY_ok:
  assumes "state (heap p c) = ''PRE_PLAY''" "rpath = path (heap p c)"
    "publishers p (path (heap p c)) = Some pub" "streamSdpParsed (heap p pub) = Some m"
    "length (streamTracks (heap p c)) = length (Medias m)"
  shows "handle_PLAY p c cseq rpath = Return (Some (session_response cseq)) (Some errPlay)"
  using assms by (simp add: handle_PLAY_def)

lemma handle_PLAY_not_ok:
  assumes "\<forall>pub. publishers p (path (heap p c)) = Some pub \<longrightarrow> streamSdpParsed (heap p pub) \<noteq> None"
    "\<not> (state (heap p c) = ''PRE_PLAY'' \<and> rpath = path (heap p c)
        \<and> (\<exists>pub m. publishers p (path (heap p c)) = Some pub \<and> streamSdpParsed (heap p pub) = Some m
              \<and> length (streamTracks (heap p c)) = length (Medias m)))"
  shows "\<exists>msg. handle_PLAY p c cseq rpath = fail msg"
  using assms by (auto simp: handle_PLAY_def split: option.splits)

lemma play_conditions_iff:
  "play_conditions lib p c req \<longleftrightarrow>
     state (heap p c) = ''PRE_PLAY''
     \<and> (\<exists>ur. url_Parse lib (Url req) = Some ur \<and> requestPath (Path ur) = path (heap p c))
     \<and> (\<exists>pub m. publishers p (path (heap p c)) = Some pub \<and> streamSdpParsed (heap p pub) = Some m
              \<and> length (streamTracks (heap p c)) = length (Medias m))"
  by (auto simp: play_conditions_def split: option.splits)

lemma play_only_when:
  assumes "Method req = ''PLAY''" "fst (handleRequest lib p c req) = Return (Some res) e"
  shows "e = Some errPlay \<and> play_conditions lib p c req \<and> StatusCode res = 200"
proof -
  obtain cseq where cs: "Headers req ''CSeq'' = Some cseq"
    using assms by (cases "Headers req ''CSeq''") (auto simp: cseq_missing)
  obtain ur where ur: "url_Parse lib (Url req) = Some ur"
    using assms cs by (cases "url_Parse lib (Url req)") (auto simp: url_unparsed)
  from assms(2) have "handle_PLAY p c cseq (requestPath (Path ur)) = Return (Some res) e"
    by (simp add: handleRequest_PLAY [OF assms(1) cs ur])
  then show ?thesis using ur
    by (auto simp: handle_PLAY_def play_conditions_iff session_response_def
        split: if_splits option.splits)
qed

lemma play_refused:
  assumes "Method req = ''PLAY''" "registry_inv p" "\<not> play_conditions lib p c req"
  shows "\<exists>msg. handleRequest lib p c req = (fail msg, p)"
proof (cases "Headers req ''CSeq''")
  case None
  then show ?thesis by (simp add: cseq_missing)
next
  case (Some cseq)
  show ?thesis
  proof (cases "url_Parse lib (Url req)")
    case None
    with Some show ?thesis by (simp add: url_unparsed)
  next
    case ur: (Some ur)
    have "\<forall>pub. publishers p (path (heap p c)) = Some pub \<longrightarrow> streamSdpParsed (heap p pub) \<noteq> None"
      using registry_invD [OF assms(2)] by blast
    moreover have "\<not> (state (heap p c) = ''PRE_PLAY'' \<and> requestPath (Path ur) = path (heap p c)
        \<and> (\<exists>pub m. publishers p (path (heap p c)) = Some pub \<and> streamSdpParsed (heap p pub) = Some m
              \<and> length (streamTracks (heap p c)) = length (Medias m)))"
      using assms(3) ur by (simp add: play_conditions_iff)
    ultimately have "\<exists>msg. handle_PLAY p c cseq (requestPath (Path ur)) = fail msg"
      by (rule handle_PLAY_not_ok)
    then show ?thesis by (simp add: handleRequest_PLAY [OF assms(1) Some ur])
  qed
qed

lemma play_accepted:
  assumes "Method req = ''PLAY''" "Headers req ''CSeq'' = Some cseq" "play_conditions lib p c req"
  shows "handleRequest lib p c req = (Return (Some (session_response cseq)) (Some errPlay), p)"
proof -
  from assms(3) obtain ur pub m where
    "url_Parse lib (Url req) = Some ur" "requestPath (Path ur) = path (heap p c)"
    "state (heap p c) = ''PRE_PLAY''"
    "publishers p (path (heap p c)) = Some pub" "streamSdpParsed (heap p pub) = Some m"
    "length (streamTracks (heap p c)) = length (Medias m)"
    unfolding play_conditions_iff by blast
  then show ?thesis
    by (simp add: handleRequest_PLAY [OF assms(1,2)] handle_PLAY_ok)
qed

text \<open>
  C3. In a registry that satisfies the invariant (every reachable one does,
  \<open>reachable_inv\<close>), a PLAY request is answered 200 only when the connection is in state
  PRE_PLAY, the path of the request equals the bound path and the number of tracks set
  up equals the number of medias of the publisher's SDP (\<open>play_conditions\<close>); when one
  of the conditions fails the request is a generic error (400 Bad Request, then
  \<^verbatim>\<open>run\<close> returns); on success the handler itself leaves the state PRE_PLAY, the 200
  response is written, and then the state of the connection is PLAY, nothing else of
  the registry being changed; when the write fails the state stays PRE_PLAY.
\<close>

theorem play_contract:
  assumes "Method req = ''PLAY''" and "registry_inv p"
  shows "(\<forall>res e. fst (handleRequest lib p c req) = Return (Some res) e \<longrightarrow>
            StatusCode res = 200 \<and> e = Some errPlay \<and> play_conditions lib p c req)
       \<and> (\<not> play_conditions lib p c req \<longrightarrow>
            (\<exists>msg. handleRequest lib p c req = (fail msg, p))
            \<and> run_iteration lib w p c req = ([WriteResponse (bad_request req)], Exit, p)
            \<and> StatusCode (bad_request req) = 400)
       \<and> (play_conditions lib p c req \<and> Headers req ''CSeq'' = Some cseq \<longrightarrow>
            handleRequest lib p c req = (Return (Some (session_response cseq)) (Some errPlay), p)
            \<and> StatusCode (session_response cseq) = 200
            \<and> state (heap (snd (handleRequest lib p c req)) c) = ''PRE_PLAY''
            \<and> run_iteration lib True p c req =
                ([WriteResponse (session_response cseq), SetState ''PLAY''],
                 if streamProtocol (heap p c) = STREAM_PROTOCOL_TCP then DiscardLoop else NextRequest,
                 p\<lparr>heap := (heap p)(c := (heap p c)\<lparr>state := ''PLAY''\<rparr>)\<rparr>)
            \<and> state (heap (snd (snd (run_iteration lib True p c req))) c) = ''PLAY''
            \<and> run_iteration lib False p c req = ([WriteResponse (session_response cseq)], Exit, p)
            \<and> state (heap (snd (snd (run_iteration lib False p c req))) c) = ''PRE_PLAY'')
       \<and> (\<exists>p'. run_deferred p c = Some p' \<and> c \<notin> set (clients p')
              \<and> (c \<in> set (clients p) \<longrightarrow> rconn_closed (heap p' c)))"
proof (intro conjI allI impI)
  show "\<exists>p'. run_deferred p c = Some p' \<and> c \<notin> set (clients p')
              \<and> (c \<in> set (clients p) \<longrightarrow> rconn_closed (heap p' c))"
    by (rule run_deferred_closes)
next
  fix res e assume "fst (handleRequest lib p c req) = Return (Some res) e"
  from play_only_when [OF assms(1) this]
  show "StatusCode res = 200" "e = Some errPlay" "play_conditions lib p c req" by simp_all
next
  assume "\<not> play_conditions lib p c req"
  from play_refused [OF assms this]
  show "\<exists>msg. handleRequest lib p c req = (fail msg, p)" .
  then show "run_iteration lib w p c req = ([WriteResponse (bad_request req)], Exit, p)"
    by (auto simp: run_iteration_fail)
next
  show "StatusCode (bad_request req) = 400"
    by (simp add: bad_request_def split: option.split)
next
  assume a: "play_conditions lib p c req \<and> Headers req ''CSeq'' = Some cseq"
  then have st: "state (heap p c) = ''PRE_PLAY''" by (simp add: play_conditions_iff)
  from a show h: "handleRequest lib p c req
      = (Return (Some (session_response cseq)) (Some errPlay), p)"
    using play_accepted [OF assms(1)] by simp
  show "StatusCode (session_response cseq) = 200" by (simp add: session_response_def)
  from h st show "state (heap (snd (handleRequest lib p c req)) c) = ''PRE_PLAY''" by simp
  from h show t: "run_iteration lib True p c req =
                ([WriteResponse (session_response cseq), SetState ''PLAY''],
                 if streamProtocol (heap p c) = STREAM_PROTOCOL_TCP then DiscardLoop else NextRequest,
                 p\<lparr>heap := (heap p)(c := (heap p c)\<lparr>state := ''PLAY''\<rparr>)\<rparr>)"
    by (simp add: run_iteration_def set_state_def)
  then show "state (heap (snd (snd (run_iteration lib True p c req))) c) = ''PLAY''" by simp
  from h show f: "run_iteration lib False p c req
      = ([WriteResponse (session_response cseq)], Exit, p)"
    by (simp add: run_iteration_def)
  then show "state (heap (snd (snd (run_iteration lib False p c req))) c) = ''PRE_PLAY''"
    using st by simp
qed

text \<open>Against a publisher with two medias, a reader with one track set up gets 400 and
  keeps its state; a reader with two tracks gets the response and then is in state PLAY,
  with nothing else of the registry changed.\<close>

theorem play_contract_witness:
  "Method (demo_request ''PLAY'' ''rtsp://h/cam'' [(''CSeq'', ''5'')] []) = ''PLAY''
   \<and> registry_inv (demo_with 1 (demo_reader [\<lparr>rtpPort = 6000, rtcpPort = 6001\<rparr>]))
   \<and> \<not> play_conditions demo_lib (demo_with 1 (demo_reader [\<lparr>rtpPort = 6000, rtcpPort = 6001\<rparr>])) 1
         (demo_request ''PLAY'' ''rtsp://h/cam'' [(''CSeq'', ''5'')] [])
   \<and> run_iteration demo_lib True (demo_with 1 (demo_reader [\<lparr>rtpPort = 6000, rtcpPort = 6001\<rparr>])) 1
         (demo_request ''PLAY'' ''rtsp://h/cam'' [(''CSeq'', ''5'')] [])
       = ([WriteResponse \<lparr>StatusCode = 400, Status = ''Bad Request'',
                          res_Headers = [''CSeq'' \<mapsto> ''5''], res_Content = []\<rparr>], Exit,
          demo_with 1 (demo_reader [\<lparr>rtpPort = 6000, rtcpPort = 6001\<rparr>]))
   \<and> play_conditions demo_lib
         (demo_with 1 (demo_reader [\<lparr>rtpPort = 6000, rtcpPort = 6001\<rparr>, \<lparr>rtpPort = 6002, rtcpPort = 6003\<rparr>])) 1
         (demo_request ''PLAY'' ''rtsp://h/cam'' [(''CSeq'', ''5'')] [])
   \<and> run_iteration demo_lib True
         (demo_with 1 (demo_reader [\<lparr>rtpPort = 6000, rtcpPort = 6001\<rparr>, \<lparr>rtpPort = 6002, rtcpPort = 6003\<rparr>])) 1
         (demo_request ''PLAY'' ''rtsp://h/cam'' [(''CSeq'', ''5'')] [])
       = ([WriteResponse (session_response ''5''), SetState ''PLAY''], NextRequest,
          demo_with 1 ((demo_reader [\<lparr>rtpPort = 6000, rtcpPort = 6001\<rparr>,
             \<lparr>rtpPort = 6002, rtcpPort = 6003\<rparr>])\<lparr>state := ''PLAY''\<rparr>))
   \<and> state (heap (snd (snd (run_iteration demo_lib True
         (demo_with 1 (demo_reader [\<lparr>rtpPort = 6000, rtcpPort = 6001\<rparr>, \<lparr>rtpPort = 6002, rtcpPort = 6003\<rparr>])) 1
         (demo_request ''PLAY'' ''rtsp://h/cam'' [(''CSeq'', ''5'')] [])))) 1) = ''PLAY''"
proof -
  let ?req = "demo_request ''PLAY'' ''rtsp://h/cam'' [(''CSeq'', ''5'')] []"
  let ?p1 = "demo_with 1 (demo_reader [\<lparr>rtpPort = 6000, rtcpPort = 6001\<rparr>])"
  let ?p2 = "demo_with 1 (demo_reader [\<lparr>rtpPort = 6000, rtcpPort = 6001\<rparr>, \<lparr>rtpPort = 6002, rtcpPort = 6003\<rparr>])"
  have m: "Method ?req = ''PLAY''" and cs: "Headers ?req ''CSeq'' = Some ''5''"
    by (simp_all add: demo_request_def)
  have n1: "\<not> play_conditions demo_lib ?p1 1 ?req"
    by (simp add: play_conditions_def demo_eval requestPath_def)
  have y2: "play_conditions demo_lib ?p2 1 ?req"
    by (simp add: play_conditions_def demo_eval requestPath_def)
  have b: "bad_request ?req = \<lparr>StatusCode = 400, Status = ''Bad Request'',
                          res_Headers = [''CSeq'' \<mapsto> ''5''], res_Content = []\<rparr>"
    by (simp add: bad_request_def demo_request_def)
  have r1: "run_iteration demo_lib True ?p1 1 ?req = ([WriteResponse (bad_request ?req)], Exit, ?p1)"
    using play_contract [where req = ?req and p = ?p1 and lib = demo_lib and c = 1 and w = True
        and cseq = "''5''", OF m demo_with_inv] n1 by blast
  have r2: "run_iteration demo_lib True ?p2 1 ?req =
                ([WriteResponse (session_response ''5''), SetState ''PLAY''],
                 if streamProtocol (heap ?p2 1) = STREAM_PROTOCOL_TCP then DiscardLoop else NextRequest,
                 ?p2\<lparr>heap := (heap ?p2)(1 := (heap ?p2 1)\<lparr>state := ''PLAY''\<rparr>)\<rparr>)"
    using play_contract [where req = ?req and p = ?p2 and lib = demo_lib and c = 1 and w = True
        and cseq = "''5''", OF m demo_with_inv] y2 cs by blast
  have s2: "state (heap (snd (snd (run_iteration demo_lib True ?p2 1 ?req))) 1) = ''PLAY''"
    using play_contract [where req = ?req and p = ?p2 and lib = demo_lib and c = 1 and w = True
        and cseq = "''5''", OF m demo_with_inv] y2 cs by blast
  have k: "(if streamProtocol (heap ?p2 1) = STREAM_PROTOCOL_TCP then DiscardLoop else NextRequest)
      = NextRequest"
    by (simp add: demo_eval)
  have fin: "?p2\<lparr>heap := (heap ?p2)(1 := (heap ?p2 1)\<lparr>state := ''PLAY''\<rparr>)\<rparr>
      = demo_with 1 ((demo_reader [\<lparr>rtpPort = 6000, rtcpPort = 6001\<rparr>,
             \<lparr>rtpPort = 6002, rtcpPort = 6003\<rparr>])\<lparr>state := ''PLAY''\<rparr>)"
    by (simp add: demo_eval)
  have r2': "run_iteration demo_lib True ?p2 1 ?req =
      ([WriteResponse (session_response ''5''), SetState ''PLAY''], NextRequest,
       demo_with 1 ((demo_reader [\<lparr>rtpPort = 6000, rtcpPort = 6001\<rparr>,
             \<lparr>rtpPort = 6002, rtcpPort = 6003\<rparr>])\<lparr>state := ''PLAY''\<rparr>))"
    using r2 unfolding k fin .
  show ?thesis
    using m n1 y2 demo_with_inv r1 r2' s2 by (simp add: b)
qed

subsection \<open>ANNOUNCE on a path that has a publisher\<close>






subsection \<open>The effect of close\<close>

lemma close_result_cascade:
  assumes "c \<in> set (clients p)" "path (heap p c) \<noteq> []" "publishers p (path (heap p c)) = Some c"
  shows "publishers (close_result p c) (path (heap p c)) = None"
    and "path (heap p oc) = path (heap p c) \<Longrightarrow> oc \<notin> set (clients (close_result p c))"
    and "path (heap p oc) = path (heap p c) \<Longrightarrow> oc \<in> set (clients p)
         \<Longrightarrow> rconn_closed (heap (close_result p c) oc)"
    and "path (heap p oc) \<noteq> path (heap p c) \<Longrightarrow>
           (oc \<in> set (clients (close_result p c)) \<longleftrightarrow> oc \<in> set (clients p))
           \<and> heap (close_result p c) oc = heap p oc"
  using assms by (auto simp: close_result_def close_others_def delete_and_Close_def)

lemma close_result_plain:
  assumes "\<not> (c \<in> set (clients p) \<and> path (heap p c) \<noteq> [] \<and> publishers p (path (heap p c)) = Some c)"
  shows "publishers (close_result p c) = publishers p"
    and "oc \<noteq> c \<Longrightarrow> (oc \<in> set (clients (close_result p c)) \<longleftrightarrow> oc \<in> set (clients p))
           \<and> heap (close_result p c) oc = heap p oc"
  using assms by (auto simp: close_result_def delete_and_Close_def)

lemma close_result_socket:
  "c \<in> set (clients p) \<Longrightarrow> rconn_closed (heap (close_result p c) c)"
  by (auto simp: close_result_def close_others_def delete_and_Close_def)

lemma close_result_noop: "c \<notin> set (clients p) \<Longrightarrow> close_result p c = p"
  by (simp add: close_result_def)

text \<open>
  What \<open>close\<close> does. It always returns; a second close of the same client is a no-op;
  after it the client is not in the clients set, and its socket is closed if the client
  was in the set; when the closed client has a non-empty path and is the publisher of
  that path, the entry of the path is removed from \<open>publishers\<close>, the other entries are
  kept, and every other client whose path equals it is removed and closed, the clients
  of other paths being left as they were; otherwise \<open>publishers\<close> and all other clients
  are left as they were.
\<close>

lemma close_contract:
  "\<exists>p'. close p c = Some p'
     \<and> close p' c = Some p'
     \<and> c \<notin> set (clients p')
     \<and> (c \<in> set (clients p) \<longrightarrow> rconn_closed (heap p' c))
     \<and> (c \<notin> set (clients p) \<longrightarrow> p' = p)
     \<and> (c \<in> set (clients p) \<and> path (heap p c) \<noteq> [] \<and> publishers p (path (heap p c)) = Some c \<longrightarrow>
          publishers p' = (publishers p)(path (heap p c) := None)
          \<and> (\<forall>oc. path (heap p oc) = path (heap p c) \<longrightarrow>
                oc \<notin> set (clients p') \<and> (oc \<in> set (clients p) \<longrightarrow> rconn_closed (heap p' oc)))
          \<and> (\<forall>oc. path (heap p oc) \<noteq> path (heap p c) \<longrightarrow>
                (oc \<in> set (clients p') \<longleftrightarrow> oc \<in> set (clients p)) \<and> heap p' oc = heap p oc))
     \<and> (\<not> (c \<in> set (clients p) \<and> path (heap p c) \<noteq> [] \<and> publishers p (path (heap p c)) = Some c) \<longrightarrow>
          publishers p' = publishers p
          \<and> (\<forall>oc. oc \<noteq> c \<longrightarrow>
                (oc \<in> set (clients p') \<longleftrightarrow> oc \<in> set (clients p)) \<and> heap p' oc = heap p oc))"
proof (intro exI [of _ "close_result p c"] conjI impI allI)
  show "close p c = Some (close_result p c)" by (rule close_eq)
  show "close (close_result p c) c = Some (close_result p c)"
    by (simp add: close_eq close_result_idem)
  show "c \<notin> set (clients (close_result p c))" by (rule close_result_clients)
  show "publishers (close_result p c) = (publishers p)(path (heap p c) := None)"
    if "c \<in> set (clients p) \<and> path (heap p c) \<noteq> [] \<and> publishers p (path (heap p c)) = Some c"
    using that by (simp add: close_result_def)
qed (simp_all add: close_result_socket close_result_noop close_result_cascade close_result_plain)

text \<open>Closing the publisher of \<^verbatim>\<open>cam\<close> in \<open>demo_three\<close> closes the reader 1 and leaves
  client 2.\<close>

lemma close_contract_example:
  "0 \<in> set (clients demo_three) \<and> path (heap demo_three 0) = ''cam''
   \<and> publishers demo_three ''cam'' = Some 0 \<and> path (heap demo_three 1) = ''cam''
   \<and> close demo_three 0 = Some (close_result demo_three 0)
   \<and> clients (close_result demo_three 0) = [2]
   \<and> publishers (close_result demo_three 0) ''cam'' = None
   \<and> rconn_closed (heap (close_result demo_three 0) 0)
   \<and> rconn_closed (heap (close_result demo_three 0) 1)
   \<and> \<not> rconn_closed (heap (close_result demo_three 0) 2)
   \<and> close (close_result demo_three 0) 0 = Some (close_result demo_three 0)"
proof -
  have a: "0 \<in> set (clients demo_three)" "path (heap demo_three 0) = ''cam''"
    "publishers demo_three ''cam'' = Some 0" "path (heap demo_three 1) = ''cam''"
    "path (heap demo_three 2) = []" "1 \<in> set (clients demo_three)"
    "\<not> rconn_closed (heap demo_three 2)"
    by (simp_all add: demo_three_def demo_eval)
  have c: "clients (close_result demo_three 0) = [2]"
    by (simp add: close_result_def close_others_def delete_and_Close_def demo_three_def demo_eval)
  from close_contract [of demo_three 0] a c show ?thesis
    by (auto simp: close_eq)
qed

text \<open>
  C2 does not hold of the code. The claim: close is idempotent, removes the client from
  the clients set and closes its socket, and when the closed client is the publisher of
  its path \<open>p\<close> it removes \<open>publishers[p]\<close> and closes every other client of that path.
  The code misses the empty path. A client that connects to a server without publish
  key and announces on \<^verbatim>\<open>rtsp://h/\<close> is answered 200 and is bound to the path \<open>[]\<close>, of
  which it is the publisher (lines 313-320 and 436-437). Line 118 takes the empty
  string for the path of a client that has none (as lines 477 and 530 do), and the
  close of that client skips lines 119-129: the client leaves the clients set, its
  socket is closed, and it remains the publisher of \<open>[]\<close>. A client that connects
  afterwards and announces on the same URL is refused, the path being taken by the
  closed client.
\<close>

theorem close_leaves_empty_path_publisher:
  "handleRequest demo_lib (newClient demo_start 0) 0 (demo_announce ''rtsp://h/'')
     = (Return (Some \<lparr>StatusCode = 200, Status = ''OK'', res_Headers = [''CSeq'' \<mapsto> ''2''],
                      res_Content = []\<rparr>) None,
        demo_with 0 (demo_publisher\<lparr>path := []\<rparr>)\<lparr>clients := [0], publishers := [[] \<mapsto> 0]\<rparr>)
   \<and> publishers (demo_with 0 (demo_publisher\<lparr>path := []\<rparr>)\<lparr>clients := [0], publishers := [[] \<mapsto> 0]\<rparr>)
        (path (heap (demo_with 0 (demo_publisher\<lparr>path := []\<rparr>)\<lparr>clients := [0], publishers := [[] \<mapsto> 0]\<rparr>) 0))
       = Some 0
   \<and> close (demo_with 0 (demo_publisher\<lparr>path := []\<rparr>)\<lparr>clients := [0], publishers := [[] \<mapsto> 0]\<rparr>) 0
       = Some (demo_with 0 (demo_publisher\<lparr>path := [], rconn_closed := True\<rparr>)
                 \<lparr>clients := [], publishers := [[] \<mapsto> 0]\<rparr>)
   \<and> publishers (demo_with 0 (demo_publisher\<lparr>path := [], rconn_closed := True\<rparr>)
                 \<lparr>clients := [], publishers := [[] \<mapsto> 0]\<rparr>) [] = Some 0
   \<and> handleRequest demo_lib
        (newClient (demo_with 0 (demo_publisher\<lparr>path := [], rconn_closed := True\<rparr>)
                 \<lparr>clients := [], publishers := [[] \<mapsto> 0]\<rparr>) 1) 1 (demo_announce ''rtsp://h/'')
     = (fail (''another client is already publishing on path '' @ apos @ [] @ apos),
        newClient (demo_with 0 (demo_publisher\<lparr>path := [], rconn_closed := True\<rparr>)
                 \<lparr>clients := [], publishers := [[] \<mapsto> 0]\<rparr>) 1)"
  by (simp add: handler_eval demo_eval demo_announce_def newClient_def close_eq close_result_def
      delete_and_Close_def)

subsection \<open>The path of a request\<close>










subsection \<open>SETUP of a publisher\<close>

text \<open>A publisher SETUP whose Transport has neither \<^verbatim>\<open>RTP/AVP/UDP\<close> nor \<^verbatim>\<open>RTP/AVP/TCP\<close> is
  refused, whether or not it has \<^verbatim>\<open>RTP/AVP\<close>.\<close>

lemma publisher_setup_needs_udp_token:
  assumes "Method req = ''SETUP''" "Headers req ''CSeq'' = Some cseq"
    "url_Parse lib (Url req) = Some ur" "Headers req ''Transport'' = Some ts"
    "''unicast'' \<in> set (newTransportHeader ts)" "''mode=record'' \<in> set (newTransportHeader ts)"
    "''RTP/AVP/UDP'' \<notin> set (newTransportHeader ts)" "''RTP/AVP/TCP'' \<notin> set (newTransportHeader ts)"
    "state (heap p c) = ''ANNOUNCE'' \<or> state (heap p c) = ''PRE_RECORD''"
    "requestPath (Path ur) = path (heap p c)"
  shows "handleRequest lib p c req = (fail (no_valid_protocol ts), p)"
  using assms by (auto simp: handleRequest_def handle_SETUP_def Let_def)

text \<open>
  C7 does not hold of the code: the publisher branch selects UDP by the token
  \<^verbatim>\<open>RTP/AVP/UDP\<close> (line 596), not by \<^verbatim>\<open>RTP/AVP\<close> as the reader branch does (line 471). A
  publisher in state ANNOUNCE that sends
  \<^verbatim>\<open>RTP/AVP;unicast;client_port=5000-5001;mode=record\<close>, whose client ports are valid, gets
  the error of line 696, which itself names \<^verbatim>\<open>RTP/AVP\<close> as a valid protocol, and 400; the
  same ports with \<^verbatim>\<open>RTP/AVP\<close> are accepted from a reader, and with \<^verbatim>\<open>RTP/AVP/UDP\<close> from the
  publisher, whose response then says \<^verbatim>\<open>RTP/AVP\<close>.
\<close>

theorem publisher_setup_rtp_avp_rejected:
  "handleRequest demo_lib demo_registry 0
     (demo_request ''SETUP'' ''rtsp://h/cam/trackID=0''
        [(''CSeq'', ''3''), (''Transport'', ''RTP/AVP;unicast;client_port=5000-5001;mode=record'')] [])
    = (fail (no_valid_protocol ''RTP/AVP;unicast;client_port=5000-5001;mode=record''), demo_registry)
   \<and> getClientPorts (\<lambda>ts. ts)
        (newTransportHeader ''RTP/AVP;unicast;client_port=5000-5001;mode=record'') = (5000, 5001)
   \<and> state (heap demo_registry 0) = ''ANNOUNCE''
   \<and> run_iteration demo_lib True demo_registry 0
     (demo_request ''SETUP'' ''rtsp://h/cam/trackID=0''
        [(''CSeq'', ''3''), (''Transport'', ''RTP/AVP;unicast;client_port=5000-5001;mode=record'')] [])
    = ([WriteResponse \<lparr>StatusCode = 400, Status = ''Bad Request'',
                       res_Headers = [''CSeq'' \<mapsto> ''3''], res_Content = []\<rparr>], Exit, demo_registry)
   \<and> fst (handleRequest demo_lib demo_registry 1
     (demo_request ''SETUP'' ''rtsp://h/cam/trackID=0''
        [(''CSeq'', ''3''), (''Transport'', ''RTP/AVP;unicast;client_port=5000-5001'')] []))
    = Return (Some (setup_response_udp demo_registry ''3'' 5000 5001)) None
   \<and> handleRequest demo_lib demo_registry 0
     (demo_request ''SETUP'' ''rtsp://h/cam/trackID=0''
        [(''CSeq'', ''3''), (''Transport'', ''RTP/AVP/UDP;unicast;client_port=5000-5001;mode=record'')] [])
    = (Return (Some (setup_response_udp demo_registry ''3'' 5000 5001)) None,
       demo_with 0 (demo_publisher\<lparr>state := ''PRE_RECORD'',
          streamTracks := [\<lparr>rtpPort = 5000, rtcpPort = 5001\<rparr>]\<rparr>))"
  by (simp add: run_iteration_def bad_request_def handler_eval demo_eval)

lemma handleRequest_record_tcp:
  assumes "Method req = ''SETUP''" "Headers req ''CSeq'' = Some cseq"
    "url_Parse lib (Url req) = Some ur" "Headers req ''Transport'' = Some ts"
    "''unicast'' \<in> set (newTransportHeader ts)" "''mode=record'' \<in> set (newTransportHeader ts)"
    "''RTP/AVP/TCP'' \<in> set (newTransportHeader ts)" "''RTP/AVP/UDP'' \<notin> set (newTransportHeader ts)"
    "state (heap p c) = ''ANNOUNCE'' \<or> state (heap p c) = ''PRE_RECORD''"
    "requestPath (Path ur) = path (heap p c)"
  shows "handleRequest lib p c req = setup_record_tcp lib p c cseq (newTransportHeader ts)"
  using assms by (auto simp: handleRequest_def handle_SETUP_def Let_def)

lemma expInterleaved_eq:
  "expInterleaved k = sprintf_d (2 * int k) @ ''-'' @ sprintf_d (2 * int k + 1)"
  by (simp add: expInterleaved_def mult.commute add.commute)

lemma nat_digits_nonempty: "nat_digits n \<noteq> []"
  by (subst nat_digits.simps) simp

lemma expInterleaved_nonempty: "expInterleaved k \<noteq> []"
  by (simp add: expInterleaved_def sprintf_d_def nat_digits_nonempty)

text \<open>
  C8, as the code has it. On a publisher TCP SETUP (state ANNOUNCE or PRE_RECORD,
  Transport with unicast, mode=record and RTP/AVP/TCP and without RTP/AVP/UDP, the
  bound path, TCP so far, a track left to set up), the client must propose
  \<^verbatim>\<open>interleaved=\<close>: for the new track index \<open>k\<close> the value that \<open>getKeyValue\<close> reads must
  equal \<open>2k-(2k+1)\<close>; then the track is appended and the state becomes PRE_RECORD; any
  other value, the missing one included, is a protocol error (400, then close).
\<close>

theorem publisher_tcp_interleaved:
  assumes "Method req = ''SETUP''" and "Headers req ''CSeq'' = Some cseq"
    and "url_Parse lib (Url req) = Some ur" and "Headers req ''Transport'' = Some ts"
    and "''unicast'' \<in> set (newTransportHeader ts)" and "''mode=record'' \<in> set (newTransportHeader ts)"
    and "''RTP/AVP/TCP'' \<in> set (newTransportHeader ts)"
    and "''RTP/AVP/UDP'' \<notin> set (newTransportHeader ts)"
    and "state (heap p c) = ''ANNOUNCE'' \<or> state (heap p c) = ''PRE_RECORD''"
    and "requestPath (Path ur) = path (heap p c)"
    and "streamTracks (heap p c) = [] \<or> streamProtocol (heap p c) = STREAM_PROTOCOL_TCP"
    and "streamSdpParsed (heap p c) = Some m"
    and "length (streamTracks (heap p c)) < length (Medias m)"
  shows "expInterleaved (length (streamTracks (heap p c)))
           = sprintf_d (2 * int (length (streamTracks (heap p c)))) @ ''-''
             @ sprintf_d (2 * int (length (streamTracks (heap p c))) + 1)
       \<and> (getKeyValue (map_range lib) (newTransportHeader ts) ''interleaved''
            = expInterleaved (length (streamTracks (heap p c))) \<longrightarrow>
          handleRequest lib p c req =
            (Return (Some (setup_response_tcp cseq
                (expInterleaved (length (streamTracks (heap p c)))))) None,
             p\<lparr>heap := (heap p)(c := (heap p c)
                  \<lparr>streamProtocol := STREAM_PROTOCOL_TCP,
                   streamTracks := streamTracks (heap p c) @ [\<lparr>rtpPort = 0, rtcpPort = 0\<rparr>],
                   state := ''PRE_RECORD''\<rparr>)\<rparr>))
       \<and> (getKeyValue (map_range lib) (newTransportHeader ts) ''interleaved''
            \<noteq> expInterleaved (length (streamTracks (heap p c))) \<longrightarrow>
          (\<exists>msg. handleRequest lib p c req = (fail msg, p))
          \<and> run_iteration lib w p c req = ([WriteResponse (bad_request req)], Exit, p)
          \<and> StatusCode (bad_request req) = 400)"
proof -
  have h: "handleRequest lib p c req = setup_record_tcp lib p c cseq (newTransportHeader ts)"
    using assms(1-10) by (rule handleRequest_record_tcp)
  have proto: "\<not> (length (streamTracks (heap p c)) > 0
         \<and> streamProtocol (heap p c) \<noteq> STREAM_PROTOCOL_TCP)"
    using assms(11) by auto
  have ok: "getKeyValue (map_range lib) (newTransportHeader ts) ''interleaved''
            = expInterleaved (length (streamTracks (heap p c))) \<Longrightarrow>
          handleRequest lib p c req =
            (Return (Some (setup_response_tcp cseq
                (expInterleaved (length (streamTracks (heap p c)))))) None,
             p\<lparr>heap := (heap p)(c := (heap p c)
                  \<lparr>streamProtocol := STREAM_PROTOCOL_TCP,
                   streamTracks := streamTracks (heap p c) @ [\<lparr>rtpPort = 0, rtcpPort = 0\<rparr>],
                   state := ''PRE_RECORD''\<rparr>)\<rparr>)"
    using proto assms(12,13)
    by (simp add: h setup_record_tcp_def Let_def expInterleaved_nonempty)
  have bad: "getKeyValue (map_range lib) (newTransportHeader ts) ''interleaved''
            \<noteq> expInterleaved (length (streamTracks (heap p c))) \<Longrightarrow>
          \<exists>msg. handleRequest lib p c req = (fail msg, p)"
    using proto assms(12,13)
    by (simp add: h setup_record_tcp_def Let_def)
  have st: "StatusCode (bad_request req) = 400"
    by (simp add: bad_request_def split: option.split)
  from ok bad st show ?thesis
    by (auto simp: expInterleaved_eq run_iteration_fail)
qed

text \<open>On the publisher's second track \<^verbatim>\<open>2-3\<close> is accepted and \<^verbatim>\<open>2-4\<close> is refused.\<close>

theorem publisher_tcp_interleaved_witness:
  "expInterleaved 1 = ''2-3''
   \<and> getKeyValue (\<lambda>ts. ts) (newTransportHeader ''RTP/AVP/TCP;unicast;mode=record;interleaved=2-3'')
        ''interleaved'' = ''2-3''
   \<and> handleRequest demo_lib (demo_with 0 demo_publisher_tcp) 0
        (demo_request ''SETUP'' ''rtsp://h/cam/trackID=1''
          [(''CSeq'', ''4''), (''Transport'', ''RTP/AVP/TCP;unicast;mode=record;interleaved=2-3'')] [])
      = (Return (Some (setup_response_tcp ''4'' ''2-3'')) None,
         demo_with 0 (demo_publisher_tcp\<lparr>streamTracks :=
            [\<lparr>rtpPort = 0, rtcpPort = 0\<rparr>, \<lparr>rtpPort = 0, rtcpPort = 0\<rparr>]\<rparr>))
   \<and> run_iteration demo_lib True (demo_with 0 demo_publisher_tcp) 0
        (demo_request ''SETUP'' ''rtsp://h/cam/trackID=1''
          [(''CSeq'', ''4''), (''Transport'', ''RTP/AVP/TCP;unicast;mode=record;interleaved=2-4'')] [])
      = ([WriteResponse \<lparr>StatusCode = 400, Status = ''Bad Request'',
                         res_Headers = [''CSeq'' \<mapsto> ''4''], res_Content = []\<rparr>], Exit,
         demo_with 0 demo_publisher_tcp)"
proof -
  let ?p = "demo_with 0 demo_publisher_tcp"
  let ?good = "demo_request ''SETUP'' ''rtsp://h/cam/trackID=1''
          [(''CSeq'', ''4''), (''Transport'', ''RTP/AVP/TCP;unicast;mode=record;interleaved=2-3'')] []"
  let ?bad = "demo_request ''SETUP'' ''rtsp://h/cam/trackID=1''
          [(''CSeq'', ''4''), (''Transport'', ''RTP/AVP/TCP;unicast;mode=record;interleaved=2-4'')] []"
  let ?ur = "\<lparr>Path = ''/cam/trackID=1'', RawQuery = []\<rparr>"
  let ?m = "\<lparr>Medias = [''m=video'', ''m=audio'']\<rparr>"
  have e: "expInterleaved 1 = ''2-3''"
    by (simp add: expInterleaved_def sprintf_d_def nat_digits.simps digit_char_def)
  have st: "state (heap ?p 0) = ''ANNOUNCE'' \<or> state (heap ?p 0) = ''PRE_RECORD''"
    "requestPath (Path ?ur) = path (heap ?p 0)"
    "streamTracks (heap ?p 0) = [] \<or> streamProtocol (heap ?p 0) = STREAM_PROTOCOL_TCP"
    "streamSdpParsed (heap ?p 0) = Some ?m"
    "length (streamTracks (heap ?p 0)) < length (Medias ?m)"
    by (simp_all add: demo_eval requestPath_def)
  have len: "length (streamTracks (heap ?p 0)) = Suc 0" by (simp add: demo_eval)
  have e': "expInterleaved (Suc 0) = ''2-3''" using e by simp
  have g: "Method ?good = ''SETUP''" "Headers ?good ''CSeq'' = Some ''4''"
    "url_Parse demo_lib (Url ?good) = Some ?ur"
    "Headers ?good ''Transport'' = Some ''RTP/AVP/TCP;unicast;mode=record;interleaved=2-3''"
    "''unicast'' \<in> set (newTransportHeader ''RTP/AVP/TCP;unicast;mode=record;interleaved=2-3'')"
    "''mode=record'' \<in> set (newTransportHeader ''RTP/AVP/TCP;unicast;mode=record;interleaved=2-3'')"
    "''RTP/AVP/TCP'' \<in> set (newTransportHeader ''RTP/AVP/TCP;unicast;mode=record;interleaved=2-3'')"
    "''RTP/AVP/UDP'' \<notin> set (newTransportHeader ''RTP/AVP/TCP;unicast;mode=record;interleaved=2-3'')"
    by (simp_all add: demo_eval newTransportHeader_def)
  have b: "Method ?bad = ''SETUP''" "Headers ?bad ''CSeq'' = Some ''4''"
    "url_Parse demo_lib (Url ?bad) = Some ?ur"
    "Headers ?bad ''Transport'' = Some ''RTP/AVP/TCP;unicast;mode=record;interleaved=2-4''"
    "''unicast'' \<in> set (newTransportHeader ''RTP/AVP/TCP;unicast;mode=record;interleaved=2-4'')"
    "''mode=record'' \<in> set (newTransportHeader ''RTP/AVP/TCP;unicast;mode=record;interleaved=2-4'')"
    "''RTP/AVP/TCP'' \<in> set (newTransportHeader ''RTP/AVP/TCP;unicast;mode=record;interleaved=2-4'')"
    "''RTP/AVP/UDP'' \<notin> set (newTransportHeader ''RTP/AVP/TCP;unicast;mode=record;interleaved=2-4'')"
    by (simp_all add: demo_eval newTransportHeader_def)
  have kg: "getKeyValue (map_range demo_lib)
      (newTransportHeader ''RTP/AVP/TCP;unicast;mode=record;interleaved=2-3'') ''interleaved'' = ''2-3''"
    and kb: "getKeyValue (map_range demo_lib)
      (newTransportHeader ''RTP/AVP/TCP;unicast;mode=record;interleaved=2-4'') ''interleaved'' = ''2-4''"
    by (simp_all add: demo_lib_def getKeyValue_def newTransportHeader_def strings_HasPrefix_def)
  have r1: "handleRequest demo_lib ?p 0 ?good =
      (Return (Some (setup_response_tcp ''4'' ''2-3'')) None,
       ?p\<lparr>heap := (heap ?p)(0 := (heap ?p 0)
                  \<lparr>streamProtocol := STREAM_PROTOCOL_TCP,
                   streamTracks := streamTracks (heap ?p 0) @ [\<lparr>rtpPort = 0, rtcpPort = 0\<rparr>],
                   state := ''PRE_RECORD''\<rparr>)\<rparr>)"
    using publisher_tcp_interleaved [OF g st, where w = True, THEN conjunct2, THEN conjunct1]
    by (simp add: kg e' len)
  have r2: "run_iteration demo_lib True ?p 0 ?bad = ([WriteResponse (bad_request ?bad)], Exit, ?p)"
    using publisher_tcp_interleaved [OF b st, where w = True, THEN conjunct2, THEN conjunct2]
    by (simp add: kb e' len)
  have br: "bad_request ?bad = \<lparr>StatusCode = 400, Status = ''Bad Request'',
                         res_Headers = [''CSeq'' \<mapsto> ''4''], res_Content = []\<rparr>"
    by (simp add: bad_request_def demo_request_def)
  have fin: "?p\<lparr>heap := (heap ?p)(0 := (heap ?p 0)
                  \<lparr>streamProtocol := STREAM_PROTOCOL_TCP,
                   streamTracks := streamTracks (heap ?p 0) @ [\<lparr>rtpPort = 0, rtcpPort = 0\<rparr>],
                   state := ''PRE_RECORD''\<rparr>)\<rparr>
      = demo_with 0 (demo_publisher_tcp\<lparr>streamTracks :=
            [\<lparr>rtpPort = 0, rtcpPort = 0\<rparr>, \<lparr>rtpPort = 0, rtcpPort = 0\<rparr>]\<rparr>)"
    by (simp add: demo_eval)
  show ?thesis
    using e kg r1 r2 by (simp add: br fin demo_lib_def)
qed

text \<open>C8 as stated fails on a SETUP that proposes no \<^verbatim>\<open>interleaved=\<close>: it is a protocol
  error.\<close>

theorem publisher_tcp_no_interleaved_counterexample:
  "run_iteration demo_lib True demo_registry 0
        (demo_request ''SETUP'' ''rtsp://h/cam/trackID=0''
          [(''CSeq'', ''3''), (''Transport'', ''RTP/AVP/TCP;unicast;mode=record'')] [])
      = ([WriteResponse \<lparr>StatusCode = 400, Status = ''Bad Request'',
                         res_Headers = [''CSeq'' \<mapsto> ''3''], res_Content = []\<rparr>], Exit, demo_registry)
   \<and> handleRequest demo_lib demo_registry 0
        (demo_request ''SETUP'' ''rtsp://h/cam/trackID=0''
          [(''CSeq'', ''3''), (''Transport'', ''RTP/AVP/TCP;unicast;mode=record'')] [])
      = (fail ''transport header does not contain interleaved field'', demo_registry)
   \<and> state (heap demo_registry 0) = ''ANNOUNCE''"
  by (simp add: run_iteration_def bad_request_def handler_eval demo_eval)

end
